theory Spec2Isabelle
  imports Complex_Main "HOL-Library.Sublist"
begin

section \<open>Values of the program\<close>

subsection \<open>Floating-point numbers\<close>

text \<open>
  A \<^verbatim>\<open>float64\<close> is modelled by what the filters observe of it: whether it is the
  not-a-number sentinel, an infinity, or a finite value, and how it compares. Finite values
  are reals; rounding plays no part in \<^verbatim>\<open>filter.py\<close>, which only stores, compares and
  hands floats to numpy. Comparisons follow IEEE 754 as Python and numpy apply it: every
  comparison with NaN is false.
\<close>

datatype float64 = NaN | NegInf | Fin real | PosInf

fun fle :: "float64 \<Rightarrow> float64 \<Rightarrow> bool" where
  "fle NaN _ = False"
| "fle _ NaN = False"
| "fle NegInf _ = True"
| "fle (Fin a) NegInf = False"
| "fle (Fin a) (Fin b) = (a \<le> b)"
| "fle (Fin a) PosInf = True"
| "fle PosInf PosInf = True"
| "fle PosInf _ = False"

fun flt :: "float64 \<Rightarrow> float64 \<Rightarrow> bool" where
  "flt NaN _ = False"
| "flt _ NaN = False"
| "flt NegInf NegInf = False"
| "flt NegInf _ = True"
| "flt (Fin a) NegInf = False"
| "flt (Fin a) (Fin b) = (a < b)"
| "flt (Fin a) PosInf = True"
| "flt PosInf _ = False"

subsection \<open>Python objects\<close>

text \<open>
  The objects \<^verbatim>\<open>filter.py\<close> handles: scalars, and the nodes (\<^verbatim>\<open>Term\<close> instances) of
  the dependency graph. A node is the value of its class and of what identifies it. The
  classes of the file are \<^verbatim>\<open>NumExprFilter\<close> (expression, inputs),
  \<^verbatim>\<open>PercentileFilter\<close> (inputs, minimum and maximum percentile) and
  \<^verbatim>\<open>SequencedFilter\<close> (inputs, the filter to apply next); for each of them these fields
  are the identity key that section 3 of the specification gives, the window length, the
  domain and the element type being constants of the class. A node of a class defined
  elsewhere is kept by
  its class name, its window length, the values of whatever else its class puts into the
  identity key (domain, element type, constructor parameters), in their order, and its
  inputs: \<open>OtherTerm\<close> is a \<^verbatim>\<open>Term\<close> that is neither a \<^verbatim>\<open>Filter\<close> nor a
  \<^verbatim>\<open>NumericalExpression\<close> (a factor, say), \<open>OtherNumExpr\<close> a
  \<^verbatim>\<open>NumericalExpression\<close> that is no \<^verbatim>\<open>Filter\<close> (with its expression before its
  inputs), \<open>OtherFilter\<close> a \<^verbatim>\<open>Filter\<close> subclass such as \<^verbatim>\<open>TestingFilter\<close>. The
  inputs of a node are arbitrary objects until validation has looked at them, so they are an
  \<open>obj list\<close>.
\<close>

datatype obj =
    PyInt int
  | PyBool bool
  | PyFloat float64
  | PyStr string
  | PyNone
  | OtherTerm string nat "obj list" "obj list"
  | OtherNumExpr string nat "obj list" string "obj list"
  | OtherFilter string nat "obj list" "obj list"
  | NumExprFilter string "obj list"
  | PercentileFilter "obj list" float64 float64
  | SequencedFilter "obj list" obj

datatype error =
    BadPercentileBounds float64 float64
  | BadBinaryOperator string obj obj
  | TypeError string
  | AttributeError string string
  | IndexError
  | ValueError
  | ExternalError string
  | InvalidRef

text \<open>\<^verbatim>\<open>isinstance(x, Term)\<close>, \<^verbatim>\<open>isinstance(x, Filter)\<close>,
  \<^verbatim>\<open>isinstance(x, NumericalExpression)\<close> and \<^verbatim>\<open>isinstance(x, int)\<close>. The last one
  holds of \<^verbatim>\<open>bool\<close> too, a subclass of \<^verbatim>\<open>int\<close>.\<close>

fun isinstance_Term :: "obj \<Rightarrow> bool" where
  "isinstance_Term (OtherTerm _ _ _ _) = True"
| "isinstance_Term (OtherNumExpr _ _ _ _ _) = True"
| "isinstance_Term (OtherFilter _ _ _ _) = True"
| "isinstance_Term (NumExprFilter _ _) = True"
| "isinstance_Term (PercentileFilter _ _ _) = True"
| "isinstance_Term (SequencedFilter _ _) = True"
| "isinstance_Term _ = False"

fun isinstance_Filter :: "obj \<Rightarrow> bool" where
  "isinstance_Filter (OtherFilter _ _ _ _) = True"
| "isinstance_Filter (NumExprFilter _ _) = True"
| "isinstance_Filter (PercentileFilter _ _ _) = True"
| "isinstance_Filter (SequencedFilter _ _) = True"
| "isinstance_Filter _ = False"

fun isinstance_NumericalExpression :: "obj \<Rightarrow> bool" where
  "isinstance_NumericalExpression (OtherNumExpr _ _ _ _ _) = True"
| "isinstance_NumericalExpression (NumExprFilter _ _) = True"
| "isinstance_NumericalExpression _ = False"

fun isinstance_int :: "obj \<Rightarrow> bool" where
  "isinstance_int (PyInt _) = True"
| "isinstance_int (PyBool _) = True"
| "isinstance_int _ = False"

text \<open>
  Modelled from the spec: the identity \<^verbatim>\<open>a is b\<close> of nodes. \<^verbatim>\<open>Term.__new__\<close>, of
  \<^verbatim>\<open>zipline.modelling.term\<close>, is not in the file. By section 6 of the specification it
  "interns nodes by that identity, so two constructions with equal identity keys yield the
  same node instance", and by section 9 the key is the "canonical tuple of (node kind,
  ordered input identities, ordered parameter values)", the window length among them. The
  value of a node in \<open>obj\<close> is its class with this key in full, so two nodes are the same
  object exactly when they are the same value. A scalar is no node.
\<close>

definition same_node :: "obj \<Rightarrow> obj \<Rightarrow> bool" where
  "same_node a b = (isinstance_Term a \<and> isinstance_Term b \<and> a = b)"

text \<open>\<^verbatim>\<open>int(other)\<close> on an \<^verbatim>\<open>int\<close> instance: \<^verbatim>\<open>True\<close> is 1 and \<^verbatim>\<open>False\<close> is 0.
  It is only called where \<^verbatim>\<open>isinstance(other, int)\<close> holds.\<close>

fun int_of :: "obj \<Rightarrow> int" where
  "int_of (PyInt k) = k"
| "int_of (PyBool b) = (if b then 1 else 0)"
| "int_of _ = 0"

text \<open>\<^verbatim>\<open>type(x).__name__\<close>.\<close>

fun type_name :: "obj \<Rightarrow> string" where
  "type_name (PyInt _) = ''int''"
| "type_name (PyBool _) = ''bool''"
| "type_name (PyFloat _) = ''float''"
| "type_name (PyStr _) = ''str''"
| "type_name PyNone = ''NoneType''"
| "type_name (OtherTerm c _ _ _) = c"
| "type_name (OtherNumExpr c _ _ _ _) = c"
| "type_name (OtherFilter c _ _ _) = c"
| "type_name (NumExprFilter _ _) = ''NumExprFilter''"
| "type_name (PercentileFilter _ _ _) = ''PercentileFilter''"
| "type_name (SequencedFilter _ _) = ''SequencedFilter''"

text \<open>The attribute \<^verbatim>\<open>x.inputs\<close>: every node has it, a scalar raises
  \<^verbatim>\<open>AttributeError\<close>.\<close>

fun getattr_inputs :: "obj \<Rightarrow> error + obj list" where
  "getattr_inputs (OtherTerm _ _ _ ins) = Inr ins"
| "getattr_inputs (OtherNumExpr _ _ _ _ ins) = Inr ins"
| "getattr_inputs (OtherFilter _ _ _ ins) = Inr ins"
| "getattr_inputs (NumExprFilter _ ins) = Inr ins"
| "getattr_inputs (PercentileFilter ins _ _) = Inr ins"
| "getattr_inputs (SequencedFilter ins _) = Inr ins"
| "getattr_inputs x = Inl (AttributeError (type_name x) ''inputs'')"

subsection \<open>Decimal text of an integer\<close>

text \<open>\<^verbatim>\<open>"{constant}".format(constant=int(other))\<close> writes the integer in decimal, with a
  leading minus sign when it is negative.\<close>

definition digit_char :: "nat \<Rightarrow> char" where
  "digit_char d = char_of (48 + d)"

fun str_nat :: "nat \<Rightarrow> string" where
  "str_nat n = (if n < 10 then [digit_char n] else str_nat (n div 10) @ [digit_char (n mod 10)])"

declare str_nat.simps [simp del]

definition str_int :: "int \<Rightarrow> string" where
  "str_int k = (if k < 0 then CHR ''-'' # str_nat (nat (- k)) else str_nat (nat k))"

section \<open>Operator dispatch\<close>

text \<open>
  \<^verbatim>\<open>binary_operator(op)\<close> returns the method installed on \<^verbatim>\<open>Filter\<close> for the operator
  \<open>op\<close>; the model is that method, with \<open>op\<close> as its first argument. Two callees live in
  \<^verbatim>\<open>zipline.modelling.expression\<close> and are parameters: \<open>build_binary_op\<close>, the method
  of a \<^verbatim>\<open>NumericalExpression\<close> that returns the two operand expressions and the merged
  inputs, and \<open>commuted_method\<close>, the method of the right operand that
  \<^verbatim>\<open>method_name_for_op(op, commute=True)\<close> names. The constructor
  \<^verbatim>\<open>NumExprFilter(expr, binds)\<close> yields the node of that expression and those inputs.
  The test \<^verbatim>\<open>self is other\<close> is made where \<open>other\<close> is a Filter, hence a node.
\<close>

definition binary_operator ::
  "(obj \<Rightarrow> string \<Rightarrow> obj \<Rightarrow> error + string \<times> string \<times> obj list) \<Rightarrow>
   (string \<Rightarrow> obj \<Rightarrow> obj \<Rightarrow> error + obj) \<Rightarrow>
   string \<Rightarrow> obj \<Rightarrow> obj \<Rightarrow> error + obj" where
  "binary_operator build_binary_op commuted_method op self other =
    (if isinstance_NumericalExpression self then
       (case build_binary_op self op other of
          Inl e \<Rightarrow> Inl e
        | Inr (self_expr, other_expr, new_inputs) \<Rightarrow>
            Inr (NumExprFilter (''('' @ self_expr @ '') '' @ op @ '' ('' @ other_expr @ '')'')
                   new_inputs))
     else if isinstance_NumericalExpression other then commuted_method op other self
     else if isinstance_Filter other then
       (if same_node self other then Inr (NumExprFilter (''x_0 '' @ op @ '' x_0'') [self])
        else Inr (NumExprFilter (''x_0 '' @ op @ '' x_1'') [self, other]))
     else if isinstance_int other then
       Inr (NumExprFilter (''x_0 '' @ op @ '' ('' @ str_int (int_of other) @ '')'') [self])
     else Inl (BadBinaryOperator op self other))"

section \<open>Construction and validation\<close>

text \<open>\<^verbatim>\<open>concat_tuples(*tuples)\<close> is \<^verbatim>\<open>tuple(chain(*tuples))\<close>: the tuples one after the
  other, nothing dropped or reordered.\<close>

definition concat_tuples :: "'a list list \<Rightarrow> 'a list" where
  "concat_tuples tuples = concat tuples"

text \<open>
  Modelled from the spec: \<^verbatim>\<open>Term.__new__\<close> and \<^verbatim>\<open>Term._init\<close>, of
  \<^verbatim>\<open>zipline.modelling.term\<close>, are not in the file. By section 6 of the specification
  construction calls a hook that initialises the fields and then a hook that validates the
  node, "invoked after initialization; raising here aborts construction". The node handed to
  \<open>Term_new\<close> is the node with its fields initialised (\<^verbatim>\<open>_init\<close> of each class stores the
  keyword arguments it is given and nothing else); \<open>validate\<close> is the \<^verbatim>\<open>_validate\<close> of
  its class. The cache of interned nodes is not part of the model.
\<close>

definition Term_new :: "(obj \<Rightarrow> error + unit) \<Rightarrow> obj \<Rightarrow> error + obj" where
  "Term_new validate self = (case validate self of Inl e \<Rightarrow> Inl e | Inr _ \<Rightarrow> Inr self)"

text \<open>\<^verbatim>\<open>PercentileFilter._validate\<close>. The chained comparison
  \<^verbatim>\<open>0.0 <= min < max <= 100.0\<close> is the conjunction of its three comparisons.
  \<open>Term_validate\<close> is \<^verbatim>\<open>super()._validate()\<close>, defined outside the file.\<close>

fun PercentileFilter_validate :: "(obj \<Rightarrow> error + unit) \<Rightarrow> obj \<Rightarrow> error + unit" where
  "PercentileFilter_validate Term_validate (PercentileFilter ins min_percentile max_percentile) =
     (if \<not> (fle (Fin 0) min_percentile \<and> flt min_percentile max_percentile
             \<and> fle max_percentile (Fin 100))
      then Inl (BadPercentileBounds min_percentile max_percentile)
      else Term_validate (PercentileFilter ins min_percentile max_percentile))"
| "PercentileFilter_validate Term_validate x =
     Inl (AttributeError (type_name x) ''_min_percentile'')"

text \<open>\<^verbatim>\<open>PercentileFilter.__new__(cls, factor, min_percentile, max_percentile)\<close>.\<close>

definition PercentileFilter_new ::
  "(obj \<Rightarrow> error + unit) \<Rightarrow> obj \<Rightarrow> float64 \<Rightarrow> float64 \<Rightarrow> error + obj" where
  "PercentileFilter_new Term_validate factor min_percentile max_percentile =
     Term_new (PercentileFilter_validate Term_validate)
       (PercentileFilter [factor] min_percentile max_percentile)"

text \<open>\<^verbatim>\<open>SequencedFilter._validate\<close>: \<^verbatim>\<open>first\<close> is \<^verbatim>\<open>self.inputs[0]\<close>.\<close>

fun SequencedFilter_validate :: "(obj \<Rightarrow> error + unit) \<Rightarrow> obj \<Rightarrow> error + unit" where
  "SequencedFilter_validate Term_validate (SequencedFilter ins then') =
     (case ins of
        [] \<Rightarrow> Inl IndexError
      | first # _ \<Rightarrow>
          if \<not> isinstance_Filter first
          then Inl (TypeError (''Expected Filter, got '' @ type_name first))
          else if \<not> isinstance_Filter then'
          then Inl (TypeError (''Expected Filter, got '' @ type_name then'))
          else Term_validate (SequencedFilter ins then'))"
| "SequencedFilter_validate Term_validate x = Inl (AttributeError (type_name x) ''_then'')"

text \<open>\<^verbatim>\<open>SequencedFilter.__new__(cls, first, then)\<close>: the argument
  \<^verbatim>\<open>inputs=concat_tuples((first,), then.inputs)\<close> is evaluated, and with it the attribute
  \<^verbatim>\<open>then.inputs\<close> is read, before the constructor of the base class is entered.\<close>

definition SequencedFilter_new :: "(obj \<Rightarrow> error + unit) \<Rightarrow> obj \<Rightarrow> obj \<Rightarrow> error + obj" where
  "SequencedFilter_new Term_validate first then' =
     (case getattr_inputs then' of
        Inl e \<Rightarrow> Inl e
      | Inr then_inputs \<Rightarrow>
          Term_new (SequencedFilter_validate Term_validate)
            (SequencedFilter (concat_tuples [[first], then_inputs]) then'))"

text \<open>\<^verbatim>\<open>Filter.then(self, other)\<close>.\<close>

definition Filter_then :: "(obj \<Rightarrow> error + unit) \<Rightarrow> obj \<Rightarrow> obj \<Rightarrow> error + obj" where
  "Filter_then Term_validate self other = SequencedFilter_new Term_validate self other"

section \<open>Arrays\<close>

text \<open>
  A two-dimensional numpy array is the list of its rows, of boolean or of float64 elements.
  The mask handed to \<^verbatim>\<open>compute_from_arrays\<close> is modelled by its array of values
  (\<^verbatim>\<open>mask.values\<close>); row and column labels play no part in the file.
\<close>

datatype ndarray = BoolArray "bool list list" | FloatArray "float64 list list"

text \<open>
  Modelled from the spec: the numpy operations the file calls (\<^verbatim>\<open>&\<close>, \<^verbatim>\<open>~\<close>,
  \<^verbatim>\<open><=\<close>, \<^verbatim>\<open>astype\<close>, assignment through a boolean index, \<^verbatim>\<open>nanpercentile\<close>) are not
  in the repository. They are written here after sections 4.3 to 4.5 of the specification
  ("elementwise logical AND", "widen to a floating-point representation", "for every
  position where mask is false, overwrite the value with the not-a-number sentinel", "a
  percentile reduction that ignores not-a-number entries", applied "independently, per row")
  and numpy's broadcasting rule for operands of unequal shape: along each axis the lengths
  are equal or one of them is 1.
\<close>

fun sequence_sum :: "('e + 'a) list \<Rightarrow> 'e + 'a list" where
  "sequence_sum [] = Inr []"
| "sequence_sum (x # xs) =
     (case x of
        Inl e \<Rightarrow> Inl e
      | Inr v \<Rightarrow> (case sequence_sum xs of Inl e \<Rightarrow> Inl e | Inr vs \<Rightarrow> Inr (v # vs)))"

definition broadcast_row :: "('a \<Rightarrow> 'b \<Rightarrow> 'c) \<Rightarrow> 'a list \<Rightarrow> 'b list \<Rightarrow> error + 'c list" where
  "broadcast_row f xs ys =
     (if length xs = length ys then Inr (map2 f xs ys)
      else if length xs = 1 then Inr (map (f (hd xs)) ys)
      else if length ys = 1 then Inr (map (\<lambda>x. f x (hd ys)) xs)
      else Inl ValueError)"

definition broadcast2 ::
  "('a \<Rightarrow> 'b \<Rightarrow> 'c) \<Rightarrow> 'a list list \<Rightarrow> 'b list list \<Rightarrow> error + 'c list list" where
  "broadcast2 f a b =
     (if length a = length b then sequence_sum (map2 (broadcast_row f) a b)
      else if length a = 1 then sequence_sum (map (broadcast_row f (hd a)) b)
      else if length b = 1 then sequence_sum (map (\<lambda>row. broadcast_row f row (hd b)) a)
      else Inl ValueError)"

text \<open>Comparisons and \<^verbatim>\<open>astype(float64)\<close> read a boolean as 1.0 or 0.0.\<close>

definition as_float :: "ndarray \<Rightarrow> float64 list list" where
  "as_float a =
     (case a of
        FloatArray d \<Rightarrow> d
      | BoolArray m \<Rightarrow> map (map (\<lambda>b. if b then Fin 1 else Fin 0)) m)"

definition np_astype_float64 :: "ndarray \<Rightarrow> ndarray" where
  "np_astype_float64 a = FloatArray (as_float a)"

fun np_and :: "ndarray \<Rightarrow> ndarray \<Rightarrow> error + ndarray" where
  "np_and (BoolArray a) (BoolArray b) =
     (case broadcast2 (\<and>) a b of Inl e \<Rightarrow> Inl e | Inr c \<Rightarrow> Inr (BoolArray c))"
| "np_and _ _ = Inl (TypeError ''bitwise_and not supported for the input types'')"

fun np_invert :: "ndarray \<Rightarrow> error + ndarray" where
  "np_invert (BoolArray m) = Inr (BoolArray (map (map Not) m))"
| "np_invert (FloatArray _) = Inl (TypeError ''invert not supported for the input types'')"

definition np_le :: "ndarray \<Rightarrow> ndarray \<Rightarrow> error + ndarray" where
  "np_le a b =
     (case broadcast2 fle (as_float a) (as_float b) of
        Inl e \<Rightarrow> Inl e
      | Inr c \<Rightarrow> Inr (BoolArray c))"

text \<open>\<^verbatim>\<open>data[index] = value\<close> with a boolean index array: the index has the shape of
  \<open>data\<close>, and the positions where it is true receive the value.\<close>

fun np_setitem_mask :: "ndarray \<Rightarrow> ndarray \<Rightarrow> float64 \<Rightarrow> error + ndarray" where
  "np_setitem_mask (FloatArray d) (BoolArray m) v =
     (if map length d = map length m
      then Inr (FloatArray (map2 (map2 (\<lambda>x b. if b then v else x)) d m))
      else Inl IndexError)"
| "np_setitem_mask _ _ _ = Inl IndexError"

text \<open>\<^verbatim>\<open>nanpercentile(data, q, axis=1, keepdims=True)\<close>: one bound per row, in a column.
  The percentile of a list of numbers is numpy's and a parameter, \<open>percentile\<close>; it is given
  the entries of the row that are not NaN.\<close>

definition np_nanpercentile ::
  "(float64 list \<Rightarrow> float64 \<Rightarrow> float64) \<Rightarrow> ndarray \<Rightarrow> float64 \<Rightarrow> ndarray" where
  "np_nanpercentile percentile data q =
     FloatArray (map (\<lambda>row. [percentile (filter (\<lambda>x. x \<noteq> NaN) row) q]) (as_float data))"

section \<open>The store of arrays\<close>

text \<open>
  Arrays are mutable objects that the caller and the filter share, so the methods run on a
  store: the list of the arrays allocated so far, an array's reference being its index. A
  reference outside the store cannot arise in Python; the model answers it with
  \<open>InvalidRef\<close>, so that every function is total. A computation takes the store and
  returns an error, or its value and the store it leaves.
\<close>

type_synonym ref = nat

type_synonym heap = "ndarray list"

definition and_then ::
  "(heap \<Rightarrow> error + 'a \<times> heap) \<Rightarrow> ('a \<Rightarrow> heap \<Rightarrow> error + 'b \<times> heap) \<Rightarrow>
   heap \<Rightarrow> error + 'b \<times> heap" where
  "and_then m f h = (case m h of Inl e \<Rightarrow> Inl e | Inr (x, h') \<Rightarrow> f x h')"

definition lift :: "error + 'a \<Rightarrow> heap \<Rightarrow> error + 'a \<times> heap" where
  "lift r h = (case r of Inl e \<Rightarrow> Inl e | Inr v \<Rightarrow> Inr (v, h))"

definition alloc :: "ndarray \<Rightarrow> heap \<Rightarrow> error + ref \<times> heap" where
  "alloc a h = Inr (length h, h @ [a])"

definition deref :: "ref \<Rightarrow> heap \<Rightarrow> error + ndarray \<times> heap" where
  "deref p h = (if p < length h then Inr (h ! p, h) else Inl InvalidRef)"

definition assign :: "ref \<Rightarrow> ndarray \<Rightarrow> heap \<Rightarrow> error + unit \<times> heap" where
  "assign p a h = (if p < length h then Inr ((), h[p := a]) else Inl InvalidRef)"

fun deref_all :: "ref list \<Rightarrow> heap \<Rightarrow> error + ndarray list \<times> heap" where
  "deref_all [] h = Inr ([], h)"
| "deref_all (p # ps) h =
     (case deref p h of
        Inl e \<Rightarrow> Inl e
      | Inr (a, _) \<Rightarrow> (case deref_all ps h of Inl e \<Rightarrow> Inl e | Inr (as, _) \<Rightarrow> Inr (a # as, h)))"

text \<open>The numpy operations on references. All of them but the assignment through an index
  leave their operands alone and return a new array.\<close>

definition ref_and :: "ref \<Rightarrow> ref \<Rightarrow> heap \<Rightarrow> error + ref \<times> heap" where
  "ref_and p q =
     and_then (deref p) (\<lambda>a. and_then (deref q) (\<lambda>b. and_then (lift (np_and a b)) alloc))"

definition ref_invert :: "ref \<Rightarrow> heap \<Rightarrow> error + ref \<times> heap" where
  "ref_invert p = and_then (deref p) (\<lambda>a. and_then (lift (np_invert a)) alloc)"

definition ref_le :: "ref \<Rightarrow> ref \<Rightarrow> heap \<Rightarrow> error + ref \<times> heap" where
  "ref_le p q =
     and_then (deref p) (\<lambda>a. and_then (deref q) (\<lambda>b. and_then (lift (np_le a b)) alloc))"

definition ref_astype_float64 :: "ref \<Rightarrow> heap \<Rightarrow> error + ref \<times> heap" where
  "ref_astype_float64 p = and_then (deref p) (\<lambda>a. alloc (np_astype_float64 a))"

definition ref_setitem_mask :: "ref \<Rightarrow> ref \<Rightarrow> float64 \<Rightarrow> heap \<Rightarrow> error + unit \<times> heap" where
  "ref_setitem_mask data index v =
     and_then (deref data) (\<lambda>d. and_then (deref index) (\<lambda>m.
       and_then (lift (np_setitem_mask d m v)) (assign data)))"

definition ref_nanpercentile ::
  "(float64 list \<Rightarrow> float64 \<Rightarrow> float64) \<Rightarrow> ref \<Rightarrow> float64 \<Rightarrow> heap \<Rightarrow> error + ref \<times> heap" where
  "ref_nanpercentile percentile data q =
     and_then (deref data) (\<lambda>d. alloc (np_nanpercentile percentile d q))"

text \<open>\<^verbatim>\<open>arrays[0]\<close> raises \<^verbatim>\<open>IndexError\<close> on an empty sequence.\<close>

definition getitem0 :: "'a list \<Rightarrow> error + 'a" where
  "getitem0 xs = (case xs of [] \<Rightarrow> Inl IndexError | x # _ \<Rightarrow> Inr x)"

section \<open>Computing a filter\<close>

text \<open>
  What the file does not define is a parameter, gathered in one record:
  \<open>numexpr_evaluate\<close>, the evaluator of expressions over arrays; \<open>percentile\<close>, numpy's
  percentile of a list of numbers; \<open>other_compute\<close>, the \<^verbatim>\<open>compute_from_arrays\<close> of a
  node whose class is defined elsewhere, about which nothing is known.
\<close>

record externals =
  numexpr_evaluate :: "string \<Rightarrow> ndarray list \<Rightarrow> ndarray \<Rightarrow> error + ndarray"
  percentile :: "float64 list \<Rightarrow> float64 \<Rightarrow> float64"
  other_compute :: "obj \<Rightarrow> ref list \<Rightarrow> ref \<Rightarrow> heap \<Rightarrow> error + ref \<times> heap"

text \<open>
  Modelled from the spec: \<^verbatim>\<open>NumericalExpression.compute_from_arrays\<close>, of
  \<^verbatim>\<open>zipline.modelling.expression\<close>, is not in the file. By section 4.3 of the specification
  it "evaluates the bound expression over inputArrays using the external vectorized
  evaluator, producing a raw boolean array", and by section 5 it "reads no mutable external
  state and writes none": the evaluator is a function of the expression, the input arrays and
  the mask, and its result is a new array.
\<close>

definition NumericalExpression_compute_from_arrays ::
  "externals \<Rightarrow> string \<Rightarrow> ref list \<Rightarrow> ref \<Rightarrow> heap \<Rightarrow> error + ref \<times> heap" where
  "NumericalExpression_compute_from_arrays ext expr arrays mask' =
     and_then (deref_all arrays) (\<lambda>as. and_then (deref mask') (\<lambda>m.
       and_then (lift (numexpr_evaluate ext expr as m)) alloc))"

text \<open>\<^verbatim>\<open>NumExprFilter.compute_from_arrays\<close>.\<close>

definition NumExprFilter_compute_from_arrays ::
  "externals \<Rightarrow> string \<Rightarrow> ref list \<Rightarrow> ref \<Rightarrow> heap \<Rightarrow> error + ref \<times> heap" where
  "NumExprFilter_compute_from_arrays ext expr arrays mask' =
     and_then (NumericalExpression_compute_from_arrays ext expr arrays mask')
       (\<lambda>numexpr_result. ref_and numexpr_result mask')"

text \<open>\<^verbatim>\<open>PercentileFilter.compute_from_arrays\<close>, statement by statement.\<close>

definition PercentileFilter_compute_from_arrays ::
  "externals \<Rightarrow> float64 \<Rightarrow> float64 \<Rightarrow> ref list \<Rightarrow> ref \<Rightarrow> heap \<Rightarrow> error + ref \<times> heap" where
  "PercentileFilter_compute_from_arrays ext min_percentile max_percentile arrays mask' =
     and_then (lift (getitem0 arrays)) (\<lambda>factor.
     and_then (ref_astype_float64 factor) (\<lambda>data.
     and_then (ref_invert mask') (\<lambda>index.
     and_then (ref_setitem_mask data index NaN) (\<lambda>_.
     and_then (ref_nanpercentile (percentile ext) data min_percentile) (\<lambda>lower_bounds.
     and_then (ref_nanpercentile (percentile ext) data max_percentile) (\<lambda>upper_bounds.
     and_then (ref_le lower_bounds data) (\<lambda>above.
     and_then (ref_le data upper_bounds) (\<lambda>below.
     ref_and above below))))))))"

text \<open>\<^verbatim>\<open>compute_from_arrays\<close> by the class of the node. For a
  \<^verbatim>\<open>SequencedFilter\<close>: \<^verbatim>\<open>arrays[0]\<close> and \<^verbatim>\<open>arrays[1:]\<close> are taken, the method of
  \<^verbatim>\<open>self._then\<close> is looked up, the mask \<^verbatim>\<open>mask & first_result\<close> is computed, and the
  method is called; what it returns is returned.\<close>

fun compute_from_arrays ::
  "externals \<Rightarrow> obj \<Rightarrow> ref list \<Rightarrow> ref \<Rightarrow> heap \<Rightarrow> error + ref \<times> heap" where
  "compute_from_arrays ext (NumExprFilter expr ins) arrays mask' h =
     NumExprFilter_compute_from_arrays ext expr arrays mask' h"
| "compute_from_arrays ext (PercentileFilter ins min_percentile max_percentile) arrays mask' h =
     PercentileFilter_compute_from_arrays ext min_percentile max_percentile arrays mask' h"
| "compute_from_arrays ext (SequencedFilter ins then') arrays mask' h =
     (case arrays of
        [] \<Rightarrow> Inl IndexError
      | first_result # then_inputs \<Rightarrow>
          if \<not> isinstance_Term then'
          then Inl (AttributeError (type_name then') ''compute_from_arrays'')
          else (case ref_and mask' first_result h of
                  Inl e \<Rightarrow> Inl e
                | Inr (narrowed, h') \<Rightarrow> compute_from_arrays ext then' then_inputs narrowed h'))"
| "compute_from_arrays ext (OtherTerm c w ps ins) arrays mask' h =
     other_compute ext (OtherTerm c w ps ins) arrays mask' h"
| "compute_from_arrays ext (OtherNumExpr c w ps expr ins) arrays mask' h =
     other_compute ext (OtherNumExpr c w ps expr ins) arrays mask' h"
| "compute_from_arrays ext (OtherFilter c w ps ins) arrays mask' h =
     other_compute ext (OtherFilter c w ps ins) arrays mask' h"
| "compute_from_arrays ext x arrays mask' h =
     Inl (AttributeError (type_name x) ''compute_from_arrays'')"

section \<open>Notions used to state the properties\<close>

text \<open>The entries of a row that take part in the percentile: those the mask keeps and that
  are numbers.\<close>

definition valid_values :: "float64 list \<Rightarrow> bool list \<Rightarrow> float64 list" where
  "valid_values row mrow = map fst (filter (\<lambda>(x, b). b \<and> x \<noteq> NaN) (zip row mrow))"

text \<open>The arrays \<^verbatim>\<open>PercentileFilter.compute_from_arrays\<close> allocates, in the order of
  allocation: \<open>data\<close> as it stands after the assignment of NaN, \<^verbatim>\<open>~mask.values\<close>, the
  lower and the upper bounds, the two comparisons, and their conjunction.\<close>

definition masked_data :: "float64 list list \<Rightarrow> bool list list \<Rightarrow> float64 list list" where
  "masked_data F M = map2 (map2 (\<lambda>x b. if b then x else NaN)) F M"

definition row_bounds ::
  "(float64 list \<Rightarrow> float64 \<Rightarrow> float64) \<Rightarrow> float64 \<Rightarrow> float64 list list \<Rightarrow> float64 list list" where
  "row_bounds pct q D = map (\<lambda>row. [pct (filter (\<lambda>x. x \<noteq> NaN) row) q]) D"

definition band_rows ::
  "(float64 list \<Rightarrow> float64 \<Rightarrow> float64) \<Rightarrow> float64 \<Rightarrow> float64 \<Rightarrow> float64 list list \<Rightarrow>
   bool list list" where
  "band_rows pct mn mx D =
     map (\<lambda>row. map (\<lambda>x. fle (pct (filter (\<lambda>x. x \<noteq> NaN) row) mn) x
                          \<and> fle x (pct (filter (\<lambda>x. x \<noteq> NaN) row) mx)) row) D"

definition PercentileFilter_arrays ::
  "(float64 list \<Rightarrow> float64 \<Rightarrow> float64) \<Rightarrow> float64 \<Rightarrow> float64 \<Rightarrow> float64 list list \<Rightarrow>
   bool list list \<Rightarrow> ndarray list" where
  "PercentileFilter_arrays pct mn mx F M =
    (let D = masked_data F M in
     [FloatArray D, BoolArray (map (map Not) M),
      FloatArray (row_bounds pct mn D), FloatArray (row_bounds pct mx D),
      BoolArray (map (\<lambda>row. map (fle (pct (filter (\<lambda>x. x \<noteq> NaN) row) mn)) row) D),
      BoolArray (map (\<lambda>row. map (\<lambda>x. fle x (pct (filter (\<lambda>x. x \<noteq> NaN) row) mx)) row) D),
      BoolArray (band_rows pct mn mx D)])"

text \<open>The filters whose computation stays within the methods of the file: a
  \<^verbatim>\<open>NumExprFilter\<close>, a \<^verbatim>\<open>PercentileFilter\<close>, and a \<^verbatim>\<open>SequencedFilter\<close> that hands
  over to such a filter.\<close>

fun defined_here :: "obj \<Rightarrow> bool" where
  "defined_here (NumExprFilter _ _) = True"
| "defined_here (PercentileFilter _ _ _) = True"
| "defined_here (SequencedFilter _ then') = defined_here then'"
| "defined_here _ = False"

text \<open>Two references, each into its store, to arrays of the same contents.\<close>

definition same_contents :: "heap \<Rightarrow> heap \<Rightarrow> ref \<Rightarrow> ref \<Rightarrow> bool" where
  "same_contents h1 h2 p q = (p < length h1 \<and> q < length h2 \<and> h1 ! p = h2 ! q)"

subsection \<open>Parameters to run the model on\<close>

text \<open>
  Modelled from the spec: numpy's percentile of a list of numbers is not in the repository.
  The scenario of section 8 of the specification (the 20th and the 80th percentile of 10, 20,
  30, 40, 50 are 18 and 42) is linear interpolation between the closest ranks, numpy's
  default, written here for finite values and a percentage between 0 and 100; every other
  input is answered with NaN. It serves as the percentile of the examples only: the
  properties below are proved for every percentile function.
\<close>

definition finite_values :: "float64 list \<Rightarrow> real list" where
  "finite_values xs = concat (map (\<lambda>x. case x of Fin v \<Rightarrow> [v] | _ \<Rightarrow> []) xs)"

definition linear_percentile :: "float64 list \<Rightarrow> float64 \<Rightarrow> float64" where
  "linear_percentile xs q =
     (case q of
        Fin p \<Rightarrow>
          (let v = sort (finite_values xs); n = length v in
           if n = 0 \<or> n \<noteq> length xs \<or> p < 0 \<or> 100 < p then NaN
           else (let pos = p / 100 * real (n - 1); i = nat \<lfloor>pos\<rfloor>; j = min (i + 1) (n - 1)
                 in Fin (v ! i + (v ! j - v ! i) * (pos - real i))))
      | _ \<Rightarrow> NaN)"

text \<open>An evaluator that knows the one expression \<^verbatim>\<open>x_0\<close>, whose value is the first input
  array; no class from elsewhere can be computed.\<close>

definition example_externals :: externals where
  "example_externals =
     \<lparr>numexpr_evaluate =
        (\<lambda>expr arrays m.
           if expr = ''x_0'' then (case arrays of a # _ \<Rightarrow> Inr a | [] \<Rightarrow> Inl (ExternalError ''x_0''))
           else Inl (ExternalError expr)),
      percentile = linear_percentile,
      other_compute = (\<lambda>self arrays m h. Inl (ExternalError (type_name self)))\<rparr>"

text \<open>Stand-ins for the methods of \<^verbatim>\<open>zipline.modelling.expression\<close> and for
  \<^verbatim>\<open>Term._validate\<close> in the examples: the first two are never reached there and report
  so, the third accepts every node.\<close>

definition no_build_binary_op :: "obj \<Rightarrow> string \<Rightarrow> obj \<Rightarrow> error + string \<times> string \<times> obj list" where
  "no_build_binary_op self op other = Inl (ExternalError ''build_binary_op'')"

definition no_commuted_method :: "string \<Rightarrow> obj \<Rightarrow> obj \<Rightarrow> error + obj" where
  "no_commuted_method op other self = Inl (ExternalError ''commuted method'')"

definition Term_validate_ok :: "obj \<Rightarrow> error + unit" where
  "Term_validate_ok self = Inr ()"

section \<open>Auxiliary facts\<close>

subsection \<open>Classes, floats, decimal text\<close>

lemma isinstance_Filter_Term: "isinstance_Filter f \<Longrightarrow> isinstance_Term f"
  by (cases f) simp_all

lemma defined_here_Term: "defined_here f \<Longrightarrow> isinstance_Term f"
  by (cases f) simp_all

lemma fle_flt_exclusive: "fle b a \<Longrightarrow> \<not> flt a b"
  by (cases a; cases b) simp_all

lemma flt_fle_exclusive: "flt a b \<Longrightarrow> \<not> fle b a"
  by (cases a; cases b) simp_all

lemma str_int_examples: "str_int 1 = ''1''" "str_int 0 = ''0''" "str_int (- 42) = ''-42''"
  by code_simp+

subsection \<open>Broadcasting\<close>

lemma sequence_sum_map_Inr: "sequence_sum (map (\<lambda>x. Inr (g x)) xs) = Inr (map g xs)"
  by (induction xs) simp_all

lemma broadcast_row_same: "length xs = length ys \<Longrightarrow> broadcast_row f xs ys = Inr (map2 f xs ys)"
  by (simp add: broadcast_row_def)

lemma broadcast_row_left: "broadcast_row f [x] ys = Inr (map (f x) ys)"
  by (cases ys; cases "tl ys") (auto simp: broadcast_row_def)

lemma broadcast_row_right: "broadcast_row f xs [y] = Inr (map (\<lambda>x. f x y) xs)"
  by (cases xs; cases "tl xs") (auto simp: broadcast_row_def)

lemma broadcast2_same:
  assumes "map length a = map length b"
  shows "broadcast2 f a b = Inr (map2 (map2 f) a b)"
proof -
  from assms have len: "length a = length b" by (rule map_eq_imp_length_eq)
  from len assms have "sequence_sum (map2 (broadcast_row f) a b) = Inr (map2 (map2 f) a b)"
    by (induction a b rule: list_induct2) (simp_all add: broadcast_row_same)
  with len show ?thesis by (simp add: broadcast2_def)
qed

lemma broadcast2_column_left:
  "broadcast2 f (map (\<lambda>row. [g row]) rows) rows = Inr (map (\<lambda>row. map (f (g row)) row) rows)"
proof -
  have "sequence_sum (map2 (broadcast_row f) (map (\<lambda>row. [g row]) rows) rows)
        = Inr (map (\<lambda>row. map (f (g row)) row) rows)"
    by (induction rows) (simp_all add: broadcast_row_left)
  then show ?thesis by (simp add: broadcast2_def)
qed

lemma broadcast2_column_right:
  "broadcast2 f rows (map (\<lambda>row. [g row]) rows)
   = Inr (map (\<lambda>row. map (\<lambda>x. f x (g row)) row) rows)"
proof -
  have "sequence_sum (map2 (broadcast_row f) rows (map (\<lambda>row. [g row]) rows))
        = Inr (map (\<lambda>row. map (\<lambda>x. f x (g row)) row) rows)"
    by (induction rows) (simp_all add: broadcast_row_right)
  then show ?thesis by (simp add: broadcast2_def)
qed

subsection \<open>Arrays of one shape, position by position\<close>

lemma shape_row:
  assumes eq: "map length a = map length b" and i: "i < length b"
  shows "length (a ! i) = length (b ! i)"
proof -
  from eq have len: "length a = length b" by (rule map_eq_imp_length_eq)
  from eq have "map length a ! i = map length b ! i" by simp
  with len i show ?thesis by simp
qed

lemma map2_map2_nth:
  assumes "map length a = map length b" "i < length b" "j < length (b ! i)"
  shows "map2 (map2 f) a b ! i ! j = f (a ! i ! j) (b ! i ! j)"
proof -
  from assms(1) have len: "length a = length b" by (rule map_eq_imp_length_eq)
  from shape_row[OF assms(1,2)] have row: "length (a ! i) = length (b ! i)" .
  from len assms(2) have "map2 (map2 f) a b ! i = map2 f (a ! i) (b ! i)" by simp
  with row assms(3) show ?thesis by simp
qed

lemma map2_map2_shape:
  assumes "map length a = map length b"
  shows "map length (map2 (map2 f) a b) = map length b"
proof -
  from assms have len: "length a = length b" by (rule map_eq_imp_length_eq)
  from len assms show ?thesis by (induction a b rule: list_induct2) simp_all
qed

lemma map2_not_row:
  "map2 (\<lambda>x b. if b then NaN else x) row (map Not mrow)
   = map2 (\<lambda>x b. if b then x else NaN) row mrow"
  by (induction row arbitrary: mrow) (simp, case_tac mrow, auto)

lemma map2_not_rows:
  "map2 (map2 (\<lambda>x b. if b then NaN else x)) F (map (map Not) M) = masked_data F M"
  unfolding masked_data_def
  by (induction F arbitrary: M) (simp, case_tac M, auto simp: map2_not_row)

lemma filter_masked_row:
  "filter (\<lambda>x. x \<noteq> NaN) (map2 (\<lambda>x b. if b then x else NaN) row mrow) = valid_values row mrow"
  unfolding valid_values_def
  by (induction row arbitrary: mrow) (simp, case_tac mrow, auto)

lemma map2_and_rows:
  "map2 (map2 (\<and>)) (map (\<lambda>row. map (f row) row) D) (map (\<lambda>row. map (g row) row) D)
   = map (\<lambda>row. map (\<lambda>x. f row x \<and> g row x) row) D"
proof -
  have row: "map2 (\<and>) (map p xs) (map q xs) = map (\<lambda>x. p x \<and> q x) xs" for p q xs
    by (induction xs) simp_all
  show ?thesis by (induction D) (simp_all add: row)
qed

lemma length_PercentileFilter_arrays: "length (PercentileFilter_arrays pct mn mx F M) = 7"
  by (simp add: PercentileFilter_arrays_def Let_def)

subsection \<open>The numpy operations on the store\<close>

lemma ref_and_eq:
  "ref_and p q h =
     (if \<not> p < length h \<or> \<not> q < length h then Inl InvalidRef
      else case np_and (h ! p) (h ! q) of Inl e \<Rightarrow> Inl e | Inr c \<Rightarrow> Inr (length h, h @ [c]))"
  by (simp add: ref_and_def and_then_def deref_def lift_def alloc_def split: sum.splits)

lemma ref_le_eq:
  "ref_le p q h =
     (if \<not> p < length h \<or> \<not> q < length h then Inl InvalidRef
      else case np_le (h ! p) (h ! q) of Inl e \<Rightarrow> Inl e | Inr c \<Rightarrow> Inr (length h, h @ [c]))"
  by (simp add: ref_le_def and_then_def deref_def lift_def alloc_def split: sum.splits)

lemma ref_invert_eq:
  "ref_invert p h =
     (if \<not> p < length h then Inl InvalidRef
      else case np_invert (h ! p) of Inl e \<Rightarrow> Inl e | Inr c \<Rightarrow> Inr (length h, h @ [c]))"
  by (simp add: ref_invert_def and_then_def deref_def lift_def alloc_def split: sum.splits)

lemma ref_astype_float64_eq:
  "ref_astype_float64 p h =
     (if \<not> p < length h then Inl InvalidRef
      else Inr (length h, h @ [np_astype_float64 (h ! p)]))"
  by (simp add: ref_astype_float64_def and_then_def deref_def alloc_def)

lemma ref_nanpercentile_eq:
  "ref_nanpercentile pct p q h =
     (if \<not> p < length h then Inl InvalidRef
      else Inr (length h, h @ [np_nanpercentile pct (h ! p) q]))"
  by (simp add: ref_nanpercentile_def and_then_def deref_def alloc_def)

lemma ref_setitem_mask_eq:
  "ref_setitem_mask p q v h =
     (if \<not> p < length h \<or> \<not> q < length h then Inl InvalidRef
      else case np_setitem_mask (h ! p) (h ! q) v of
             Inl e \<Rightarrow> Inl e
           | Inr c \<Rightarrow> Inr ((), h[p := c]))"
  by (simp add: ref_setitem_mask_def and_then_def deref_def lift_def assign_def split: sum.splits)

lemma deref_all_eq:
  "deref_all ps h =
     (if \<forall>p\<in>set ps. p < length h then Inr (map (nth h) ps, h) else Inl InvalidRef)"
  by (induction ps) (auto simp: deref_def)

subsection \<open>The methods in closed form\<close>

lemma PercentileFilter_compute_success:
  assumes f: "factor < length h" and m: "mask' < length h" and M: "h ! mask' = BoolArray M"
    and sh: "map length (as_float (h ! factor)) = map length M"
  shows "PercentileFilter_compute_from_arrays ext mn mx (factor # rest) mask' h
         = Inr (length h + 6,
                h @ PercentileFilter_arrays (percentile ext) mn mx (as_float (h ! factor)) M)"
proof -
  define F where "F = as_float (h ! factor)"
  define D where "D = masked_data F M"
  define pct where "pct = percentile ext"
  define NM where "NM = map (map Not) M"
  define LO where "LO = row_bounds pct mn D"
  define UP where "UP = row_bounds pct mx D"
  define A where "A = map (\<lambda>row. map (fle (pct (filter (\<lambda>x. x \<noteq> NaN) row) mn)) row) D"
  define B where "B = map (\<lambda>row. map (\<lambda>x. fle x (pct (filter (\<lambda>x. x \<noteq> NaN) row) mx)) row) D"
  let ?h1 = "h @ [FloatArray F]"
  let ?h2 = "h @ [FloatArray F, BoolArray NM]"
  let ?h3 = "h @ [FloatArray D, BoolArray NM]"
  let ?h4 = "h @ [FloatArray D, BoolArray NM, FloatArray LO]"
  let ?h5 = "h @ [FloatArray D, BoolArray NM, FloatArray LO, FloatArray UP]"
  let ?h6 = "h @ [FloatArray D, BoolArray NM, FloatArray LO, FloatArray UP, BoolArray A]"
  let ?h7 = "h @ [FloatArray D, BoolArray NM, FloatArray LO, FloatArray UP, BoolArray A, BoolArray B]"
  have s1: "ref_astype_float64 factor h = Inr (length h, ?h1)"
    using f by (simp add: ref_astype_float64_eq np_astype_float64_def F_def)
  have s2: "ref_invert mask' ?h1 = Inr (Suc (length h), ?h2)"
    using m M by (simp add: ref_invert_eq nth_append NM_def)
  have s3: "ref_setitem_mask (length h) (Suc (length h)) NaN ?h2 = Inr ((), ?h3)"
    using sh by (simp add: ref_setitem_mask_eq nth_append NM_def map2_not_rows F_def D_def comp_def)
  have s4: "ref_nanpercentile pct (length h) mn ?h3 = Inr (Suc (Suc (length h)), ?h4)"
    by (simp add: ref_nanpercentile_eq nth_append np_nanpercentile_def as_float_def LO_def
        row_bounds_def)
  have s5: "ref_nanpercentile pct (length h) mx ?h4 = Inr (Suc (Suc (Suc (length h))), ?h5)"
    by (simp add: ref_nanpercentile_eq nth_append np_nanpercentile_def as_float_def UP_def
        row_bounds_def)
  have s6: "ref_le (Suc (Suc (length h))) (length h) ?h5
            = Inr (Suc (Suc (Suc (Suc (length h)))), ?h6)"
    by (simp add: ref_le_eq nth_append np_le_def as_float_def LO_def row_bounds_def
        broadcast2_column_left A_def)
  have s7: "ref_le (length h) (Suc (Suc (Suc (length h)))) ?h6
            = Inr (Suc (Suc (Suc (Suc (Suc (length h))))), ?h7)"
    by (simp add: ref_le_eq nth_append np_le_def as_float_def UP_def row_bounds_def
        broadcast2_column_right B_def)
  have shAB: "map length A = map length B" by (simp add: A_def B_def)
  have s8: "ref_and (Suc (Suc (Suc (Suc (length h))))) (Suc (Suc (Suc (Suc (Suc (length h)))))) ?h7
            = Inr (length h + 6, ?h7 @ [BoolArray (band_rows pct mn mx D)])"
    using shAB
    by (simp add: ref_and_eq nth_append broadcast2_same)
      (simp add: A_def B_def map2_and_rows band_rows_def)
  show ?thesis
    unfolding PercentileFilter_compute_from_arrays_def
    by (simp add: and_then_def lift_def getitem0_def s1 s2 s3 s4 s5 s6 s7 s8 pct_def[symmetric])
      (simp add: PercentileFilter_arrays_def Let_def F_def[symmetric] D_def[symmetric]
        LO_def UP_def A_def B_def NM_def pct_def)
qed

lemma PercentileFilter_compute_start:
  "PercentileFilter_compute_from_arrays ext mn mx (factor # rest) mask' h =
     and_then (ref_astype_float64 factor) (\<lambda>data.
     and_then (ref_invert mask') (\<lambda>index.
     and_then (ref_setitem_mask data index NaN) (\<lambda>_.
     and_then (ref_nanpercentile (percentile ext) data mn) (\<lambda>lower_bounds.
     and_then (ref_nanpercentile (percentile ext) data mx) (\<lambda>upper_bounds.
     and_then (ref_le lower_bounds data) (\<lambda>above.
     and_then (ref_le data upper_bounds) (\<lambda>below.
     ref_and above below))))))) h"
  by (simp add: PercentileFilter_compute_from_arrays_def and_then_def lift_def getitem0_def)

lemma PercentileFilter_compute_eq:
  assumes m: "mask' < length h"
  shows "PercentileFilter_compute_from_arrays ext mn mx arrays mask' h =
    (case arrays of
       [] \<Rightarrow> Inl IndexError
     | factor # rest \<Rightarrow>
         if \<not> factor < length h then Inl InvalidRef
         else (case h ! mask' of
                 FloatArray _ \<Rightarrow> Inl (TypeError ''invert not supported for the input types'')
               | BoolArray M \<Rightarrow>
                   if map length (as_float (h ! factor)) = map length M
                   then Inr (length h + 6,
                          h @ PercentileFilter_arrays (percentile ext) mn mx
                                (as_float (h ! factor)) M)
                   else Inl IndexError))"
proof (cases arrays)
  case Nil
  then show ?thesis
    by (simp add: PercentileFilter_compute_from_arrays_def and_then_def lift_def getitem0_def)
next
  case (Cons factor rest)
  note start = PercentileFilter_compute_start
  show ?thesis
  proof (cases "factor < length h")
    case False
    with Cons show ?thesis
      by (simp add: start and_then_def ref_astype_float64_eq)
  next
    case f: True
    show ?thesis
    proof (cases "h ! mask'")
      case (FloatArray x)
      with Cons f m show ?thesis
        by (simp add: start and_then_def ref_astype_float64_eq ref_invert_eq nth_append)
    next
      case (BoolArray M)
      show ?thesis
      proof (cases "map length (as_float (h ! factor)) = map length M")
        case True
        with Cons f m BoolArray show ?thesis
          by (simp add: PercentileFilter_compute_success)
      next
        case False
        with Cons f m BoolArray show ?thesis
          by (simp add: start and_then_def ref_astype_float64_eq ref_invert_eq nth_append
              ref_setitem_mask_eq np_astype_float64_def comp_def)
      qed
    qed
  qed
qed

lemma PercentileFilter_compute_invalid_mask:
  assumes m: "\<not> mask' < length h"
  shows "PercentileFilter_compute_from_arrays ext mn mx arrays mask' h =
    (case arrays of
       [] \<Rightarrow> Inl IndexError
     | factor # rest \<Rightarrow>
         if \<not> factor < length h then Inl InvalidRef
         else if mask' = length h
         then Inl (TypeError ''invert not supported for the input types'')
         else Inl InvalidRef)"
proof (cases arrays)
  case Nil
  then show ?thesis
    by (simp add: PercentileFilter_compute_from_arrays_def and_then_def lift_def getitem0_def)
next
  case (Cons factor rest)
  with m show ?thesis
    by (auto simp: PercentileFilter_compute_start and_then_def ref_astype_float64_eq ref_invert_eq
        nth_append np_astype_float64_def)
qed

lemma PercentileFilter_compute_errors:
  "PercentileFilter_compute_from_arrays ext mn mx arrays mask' h \<noteq> Inl (BadPercentileBounds a b)"
proof (cases "mask' < length h")
  case True
  then show ?thesis
    by (simp add: PercentileFilter_compute_eq split: list.splits ndarray.splits)
next
  case False
  then show ?thesis
    by (simp add: PercentileFilter_compute_invalid_mask split: list.splits)
qed

lemma NumExprFilter_compute_eq:
  "NumExprFilter_compute_from_arrays ext expr arrays mask' h =
     (if \<not> (\<forall>p\<in>set arrays. p < length h) \<or> \<not> mask' < length h then Inl InvalidRef
      else (case numexpr_evaluate ext expr (map (nth h) arrays) (h ! mask') of
              Inl e \<Rightarrow> Inl e
            | Inr raw \<Rightarrow>
                (case np_and raw (h ! mask') of
                   Inl e \<Rightarrow> Inl e
                 | Inr c \<Rightarrow> Inr (length h + 1, h @ [raw, c]))))"
  by (auto simp: NumExprFilter_compute_from_arrays_def NumericalExpression_compute_from_arrays_def
      and_then_def deref_all_eq deref_def lift_def alloc_def ref_and_eq nth_append split: sum.splits)

subsection \<open>Frame and determinism of the computation\<close>

lemma compute_frame:
  "defined_here f \<Longrightarrow> mask' < length h \<Longrightarrow> compute_from_arrays ext f arrays mask' h = Inr (r, h')
   \<Longrightarrow> prefix h h' \<and> r < length h'"
proof (induction f arbitrary: arrays mask' h)
  case (NumExprFilter expr ins)
  then show ?case
    by (auto simp: NumExprFilter_compute_eq split: if_splits sum.splits)
next
  case (PercentileFilter ins mn mx)
  then show ?case
    by (auto simp: PercentileFilter_compute_eq length_PercentileFilter_arrays
        split: list.splits if_splits ndarray.splits)
next
  case (SequencedFilter ins t)
  from SequencedFilter.prems obtain fr rest where arr: "arrays = fr # rest"
    by (cases arrays) auto
  from SequencedFilter.prems have dt: "defined_here t" by simp
  from SequencedFilter.prems arr dt obtain c where
    run: "compute_from_arrays ext t rest (length h) (h @ [c]) = Inr (r, h')"
    by (auto simp: ref_and_eq defined_here_Term split: if_splits sum.splits)
  from SequencedFilter.IH(2)[OF dt _ run] have "prefix (h @ [c]) h' \<and> r < length h'" by simp
  then show ?case by (auto dest: append_prefixD)
qed simp_all

lemma same_contents_append:
  "same_contents h1 h2 p q \<Longrightarrow> same_contents (h1 @ xs) (h2 @ ys) p q"
  by (simp add: same_contents_def nth_append)

lemma same_contents_map:
  "list_all2 (same_contents h1 h2) as1 as2 \<Longrightarrow>
     map (nth h1) as1 = map (nth h2) as2
     \<and> (\<forall>p\<in>set as1. p < length h1) \<and> (\<forall>q\<in>set as2. q < length h2)"
  by (induction as1 as2 rule: list_all2_induct) (simp_all add: same_contents_def)

lemma compute_deterministic:
  "defined_here f \<Longrightarrow> list_all2 (same_contents h1 h2) as1 as2 \<Longrightarrow> same_contents h1 h2 m1 m2 \<Longrightarrow>
   (case compute_from_arrays ext f as1 m1 h1 of
      Inl e \<Rightarrow> compute_from_arrays ext f as2 m2 h2 = Inl e
    | Inr (r1, h1') \<Rightarrow>
        (\<exists>r2 h2'. compute_from_arrays ext f as2 m2 h2 = Inr (r2, h2')
                  \<and> same_contents h1' h2' r1 r2))"
proof (induction f arbitrary: as1 as2 m1 m2 h1 h2)
  case (NumExprFilter expr ins)
  from same_contents_map[OF NumExprFilter.prems(2)] NumExprFilter.prems(3)
  show ?case
    by (auto simp: NumExprFilter_compute_eq same_contents_def nth_append split: sum.splits)
next
  case (PercentileFilter ins mn mx)
  show ?case
  proof (cases as1)
    case Nil
    with PercentileFilter.prems show ?thesis
      by (simp add: PercentileFilter_compute_eq same_contents_def)
  next
    case (Cons p ps)
    with PercentileFilter.prems obtain q qs where as2: "as2 = q # qs"
      and pq: "same_contents h1 h2 p q"
      by (auto simp: list_all2_Cons1)
    with Cons PercentileFilter.prems show ?thesis
      by (auto simp: PercentileFilter_compute_eq same_contents_def nth_append
          length_PercentileFilter_arrays PercentileFilter_arrays_def Let_def
          split: ndarray.splits)
  qed
next
  case (SequencedFilter ins t)
  from SequencedFilter.prems have dt: "defined_here t" by simp
  show ?case
  proof (cases as1)
    case Nil
    with SequencedFilter.prems show ?thesis by simp
  next
    case (Cons p ps)
    with SequencedFilter.prems obtain q qs where as2: "as2 = q # qs"
      and pq: "same_contents h1 h2 p q"
      and rest: "list_all2 (same_contents h1 h2) ps qs"
      by (auto simp: list_all2_Cons1)
    from pq SequencedFilter.prems(3)
    have eq: "np_and (h1 ! m1) (h1 ! p) = np_and (h2 ! m2) (h2 ! q)"
      and valid: "m1 < length h1" "p < length h1" "m2 < length h2" "q < length h2"
      by (simp_all add: same_contents_def)
    show ?thesis
    proof (cases "np_and (h1 ! m1) (h1 ! p)")
      case (Inl e)
      with eq have Inl2: "np_and (h2 ! m2) (h2 ! q) = Inl e" by simp
      have L: "compute_from_arrays ext (SequencedFilter ins t) as1 m1 h1 = Inl e"
        using Inl valid Cons dt by (simp add: ref_and_eq defined_here_Term)
      have R: "compute_from_arrays ext (SequencedFilter ins t) as2 m2 h2 = Inl e"
        using Inl2 valid as2 dt by (simp add: ref_and_eq defined_here_Term)
      show ?thesis unfolding L R by simp
    next
      case (Inr c)
      have rest': "list_all2 (same_contents (h1 @ [c]) (h2 @ [c])) ps qs"
        using rest by (rule list_all2_mono) (rule same_contents_append)
      have m': "same_contents (h1 @ [c]) (h2 @ [c]) (length h1) (length h2)"
        by (simp add: same_contents_def)
      from Inr eq have Inr2: "np_and (h2 ! m2) (h2 ! q) = Inr c" by simp
      have L: "compute_from_arrays ext (SequencedFilter ins t) as1 m1 h1
               = compute_from_arrays ext t ps (length h1) (h1 @ [c])"
        using Inr valid Cons dt by (simp add: ref_and_eq defined_here_Term)
      have R: "compute_from_arrays ext (SequencedFilter ins t) as2 m2 h2
               = compute_from_arrays ext t qs (length h2) (h2 @ [c])"
        using Inr2 valid as2 dt by (simp add: ref_and_eq defined_here_Term)
      from SequencedFilter.IH(2)[OF dt rest' m'] show ?thesis
        unfolding L R .
    qed
  qed
qed simp_all

lemma prefix_nth: "prefix h h' \<Longrightarrow> p < length h \<Longrightarrow> h' ! p = h ! p"
  by (auto simp: prefix_def nth_append)

section \<open>Properties of the operator dispatch\<close>

text \<open>
  Claim C5, as amended. For all Filters \<open>a\<close> and \<open>b\<close> with \<^verbatim>\<open>a is b\<close>, where \<open>a\<close> is not a
  NumericalExpression, the method of every operator \<open>op\<close> returns the NumExprFilter of the
  expression \<^verbatim>\<open>x_0 <op> x_0\<close> over the one input \<open>a\<close>.
\<close>

theorem binary_operator_same_node:
  assumes "isinstance_Filter a" and "isinstance_Filter b" and "same_node a b"
    and "\<not> isinstance_NumericalExpression a"
  shows "binary_operator build_binary_op commuted_method op a b
         = Inr (NumExprFilter (''x_0 '' @ op @ '' x_0'') [a])"
proof -
  from assms(3) have "b = a" by (simp add: same_node_def)
  with assms show ?thesis by (simp add: binary_operator_def)
qed

theorem binary_operator_same_node_witness:
  "binary_operator no_build_binary_op no_commuted_method ''&''
     (PercentileFilter [OtherTerm ''SimpleMovingAverage'' 10 [] []] (Fin 20) (Fin 80))
     (PercentileFilter [OtherTerm ''SimpleMovingAverage'' 10 [] []] (Fin 20) (Fin 80))
   = Inr (NumExprFilter ''x_0 & x_0''
            [PercentileFilter [OtherTerm ''SimpleMovingAverage'' 10 [] []] (Fin 20) (Fin 80)])"
  using binary_operator_same_node[of
      "PercentileFilter [OtherTerm ''SimpleMovingAverage'' 10 [] []] (Fin 20) (Fin 80)"
      "PercentileFilter [OtherTerm ''SimpleMovingAverage'' 10 [] []] (Fin 20) (Fin 80)"
      no_build_binary_op no_commuted_method "''&''"]
  by (simp add: same_node_def)

text \<open>
  The claim as it was stated, for all Filters, fails on a \<^verbatim>\<open>NumExprFilter\<close>, which is a
  Filter and a NumericalExpression: the first branch of the dispatch takes it, and whatever
  \<^verbatim>\<open>build_binary_op\<close> answers, the result is an error or an expression that opens with a
  parenthesis.
\<close>

theorem binary_operator_same_node_counterexample:
  "isinstance_Filter (NumExprFilter ''x_0 & x_1'' [OtherFilter ''F'' 0 [] [], OtherFilter ''G'' 0 [] []])
   \<and> same_node (NumExprFilter ''x_0 & x_1'' [OtherFilter ''F'' 0 [] [], OtherFilter ''G'' 0 [] []])
        (NumExprFilter ''x_0 & x_1'' [OtherFilter ''F'' 0 [] [], OtherFilter ''G'' 0 [] []])
   \<and> (\<forall>build_binary_op commuted_method.
        binary_operator build_binary_op commuted_method ''&''
          (NumExprFilter ''x_0 & x_1'' [OtherFilter ''F'' 0 [] [], OtherFilter ''G'' 0 [] []])
          (NumExprFilter ''x_0 & x_1'' [OtherFilter ''F'' 0 [] [], OtherFilter ''G'' 0 [] []])
        \<noteq> Inr (NumExprFilter ''x_0 & x_0''
                 [NumExprFilter ''x_0 & x_1'' [OtherFilter ''F'' 0 [] [], OtherFilter ''G'' 0 [] []]]))"
  by (simp add: binary_operator_def same_node_def split: sum.splits prod.splits)

text \<open>
  Claim C6, as amended. For all Filters \<open>a\<close> and \<open>b\<close> with \<^verbatim>\<open>a is not b\<close>, neither of them
  a NumericalExpression, \<^verbatim>\<open>a & b\<close> is the NumExprFilter of the expression
  \<^verbatim>\<open>x_0 & x_1\<close> over the two inputs \<open>a\<close>, \<open>b\<close>, in this order.
\<close>

theorem binary_operator_distinct_nodes:
  assumes "isinstance_Filter a" and "isinstance_Filter b" and "\<not> same_node a b"
    and "\<not> isinstance_NumericalExpression a" and "\<not> isinstance_NumericalExpression b"
  shows "binary_operator build_binary_op commuted_method ''&'' a b
         = Inr (NumExprFilter ''x_0 & x_1'' [a, b])"
  using assms by (simp add: binary_operator_def)

text \<open>Two percentile filters of one class and of the same bounds, over moving averages that
  differ in their window length alone, are distinct nodes; so are a percentile filter and a
  filter of another class.\<close>

theorem binary_operator_distinct_nodes_witness:
  "binary_operator no_build_binary_op no_commuted_method ''&''
     (PercentileFilter [OtherTerm ''SimpleMovingAverage'' 10 [] []] (Fin 20) (Fin 80))
     (PercentileFilter [OtherTerm ''SimpleMovingAverage'' 20 [] []] (Fin 20) (Fin 80))
   = Inr (NumExprFilter ''x_0 & x_1''
            [PercentileFilter [OtherTerm ''SimpleMovingAverage'' 10 [] []] (Fin 20) (Fin 80),
             PercentileFilter [OtherTerm ''SimpleMovingAverage'' 20 [] []] (Fin 20) (Fin 80)])
   \<and> binary_operator no_build_binary_op no_commuted_method ''&''
     (PercentileFilter [OtherTerm ''SimpleMovingAverage'' 10 [] []] (Fin 20) (Fin 80))
     (OtherFilter ''TestingFilter'' 0 [] [])
   = Inr (NumExprFilter ''x_0 & x_1''
            [PercentileFilter [OtherTerm ''SimpleMovingAverage'' 10 [] []] (Fin 20) (Fin 80),
             OtherFilter ''TestingFilter'' 0 [] []])"
  using
    binary_operator_distinct_nodes[of
      "PercentileFilter [OtherTerm ''SimpleMovingAverage'' 10 [] []] (Fin 20) (Fin 80)"
      "PercentileFilter [OtherTerm ''SimpleMovingAverage'' 20 [] []] (Fin 20) (Fin 80)"
      no_build_binary_op no_commuted_method]
    binary_operator_distinct_nodes[of
      "PercentileFilter [OtherTerm ''SimpleMovingAverage'' 10 [] []] (Fin 20) (Fin 80)"
      "OtherFilter ''TestingFilter'' 0 [] []" no_build_binary_op no_commuted_method]
  by (simp add: same_node_def)

text \<open>
  The claim as it was stated fails when the left operand is a \<^verbatim>\<open>NumExprFilter\<close>: the two
  operands below are distinct Filters, and the result is never the expression
  \<^verbatim>\<open>x_0 & x_1\<close> over the two of them.
\<close>

theorem binary_operator_distinct_nodes_counterexample:
  "isinstance_Filter (NumExprFilter ''x_0 & x_1'' [OtherFilter ''F'' 0 [] [], OtherFilter ''G'' 0 [] []])
   \<and> isinstance_Filter (OtherFilter ''H'' 0 [] [])
   \<and> \<not> same_node (NumExprFilter ''x_0 & x_1'' [OtherFilter ''F'' 0 [] [], OtherFilter ''G'' 0 [] []])
          (OtherFilter ''H'' 0 [] [])
   \<and> (\<forall>build_binary_op commuted_method.
        binary_operator build_binary_op commuted_method ''&''
          (NumExprFilter ''x_0 & x_1'' [OtherFilter ''F'' 0 [] [], OtherFilter ''G'' 0 [] []])
          (OtherFilter ''H'' 0 [] [])
        \<noteq> Inr (NumExprFilter ''x_0 & x_1''
                 [NumExprFilter ''x_0 & x_1'' [OtherFilter ''F'' 0 [] [], OtherFilter ''G'' 0 [] []],
                  OtherFilter ''H'' 0 [] []]))"
  by (simp add: binary_operator_def same_node_def split: sum.splits prod.splits)

text \<open>What the first branch of the dispatch returns for a left operand that is a
  NumericalExpression, when \<^verbatim>\<open>build_binary_op\<close> returns.\<close>

lemma binary_operator_of_NumericalExpression:
  assumes "isinstance_NumericalExpression a"
    and "build_binary_op a op b = Inr (self_expr, other_expr, new_inputs)"
  shows "binary_operator build_binary_op commuted_method op a b
         = Inr (NumExprFilter (''('' @ self_expr @ '') '' @ op @ '' ('' @ other_expr @ '')'')
                  new_inputs)"
  using assms by (simp add: binary_operator_def)

text \<open>
  Claim C7. For every Filter \<open>a\<close> that is not a NumericalExpression, every operator \<open>op\<close> and
  every integer \<open>k\<close>, \<^verbatim>\<open>a <op> k\<close> is the NumExprFilter of the expression
  \<^verbatim>\<open>x_0 <op> (k)\<close>, with \<open>k\<close> in decimal, over the one input \<open>a\<close>. A boolean is taken by
  its integer value, so \<^verbatim>\<open>a <op> True\<close> is \<^verbatim>\<open>a <op> 1\<close>.
\<close>

theorem binary_operator_integer_constant:
  assumes "isinstance_Filter a" and "\<not> isinstance_NumericalExpression a"
  shows "binary_operator build_binary_op commuted_method op a (PyInt k)
           = Inr (NumExprFilter (''x_0 '' @ op @ '' ('' @ str_int k @ '')'') [a])
       \<and> binary_operator build_binary_op commuted_method op a (PyBool t)
           = Inr (NumExprFilter (''x_0 '' @ op @ '' ('' @ str_int (if t then 1 else 0) @ '')'') [a])
       \<and> binary_operator build_binary_op commuted_method op a (PyBool True)
           = binary_operator build_binary_op commuted_method op a (PyInt 1)"
  using assms by (simp add: binary_operator_def)

theorem binary_operator_integer_constant_witness:
  "binary_operator no_build_binary_op no_commuted_method ''&''
       (OtherFilter ''TestingFilter'' 0 [] []) (PyInt (- 42))
     = Inr (NumExprFilter ''x_0 & (-42)'' [OtherFilter ''TestingFilter'' 0 [] []])
   \<and> binary_operator no_build_binary_op no_commuted_method ''&''
       (OtherFilter ''TestingFilter'' 0 [] []) (PyBool True)
     = Inr (NumExprFilter ''x_0 & (1)'' [OtherFilter ''TestingFilter'' 0 [] []])"
  using binary_operator_integer_constant[of "OtherFilter ''TestingFilter'' 0 [] []"
      no_build_binary_op no_commuted_method "''&''" "- 42" True]
  by (simp add: str_int_examples)

section \<open>Properties of construction\<close>

text \<open>
  Claim C3. The bounds of a \<^verbatim>\<open>PercentileFilter\<close> are checked when it is constructed: with
  \<^verbatim>\<open>0.0 <= min < max <= 100.0\<close> construction returns the node (the validation of the base
  class accepting it), and otherwise it fails with \<^verbatim>\<open>BadPercentileBounds\<close> carrying both
  bounds, in particular when \<^verbatim>\<open>min >= max\<close>, \<^verbatim>\<open>min < 0\<close> or \<^verbatim>\<open>max > 100\<close>.
  \<^verbatim>\<open>compute_from_arrays\<close> does not check them: it never fails with
  \<^verbatim>\<open>BadPercentileBounds\<close>, whatever the bounds of the node.
\<close>

theorem PercentileFilter_bounds_validated_at_construction:
  "(fle (Fin 0) mn \<and> flt mn mx \<and> fle mx (Fin 100) \<longrightarrow>
      Term_validate (PercentileFilter [factor] mn mx) = Inr () \<longrightarrow>
      PercentileFilter_new Term_validate factor mn mx = Inr (PercentileFilter [factor] mn mx))
   \<and> (\<not> (fle (Fin 0) mn \<and> flt mn mx \<and> fle mx (Fin 100)) \<longrightarrow>
      PercentileFilter_new Term_validate factor mn mx = Inl (BadPercentileBounds mn mx))
   \<and> (fle mx mn \<or> flt mn (Fin 0) \<or> flt (Fin 100) mx \<longrightarrow>
      PercentileFilter_new Term_validate factor mn mx = Inl (BadPercentileBounds mn mx))
   \<and> compute_from_arrays ext (PercentileFilter ins mn mx) arrays mask' h
        \<noteq> Inl (BadPercentileBounds a b)"
proof -
  have ok: "fle (Fin 0) mn \<and> flt mn mx \<and> fle mx (Fin 100) \<Longrightarrow>
      Term_validate (PercentileFilter [factor] mn mx) = Inr () \<Longrightarrow>
      PercentileFilter_new Term_validate factor mn mx = Inr (PercentileFilter [factor] mn mx)"
    by (simp add: PercentileFilter_new_def Term_new_def)
  have bad: "\<not> (fle (Fin 0) mn \<and> flt mn mx \<and> fle mx (Fin 100)) \<Longrightarrow>
      PercentileFilter_new Term_validate factor mn mx = Inl (BadPercentileBounds mn mx)"
    by (auto simp: PercentileFilter_new_def Term_new_def)
  have outside: "fle mx mn \<or> flt mn (Fin 0) \<or> flt (Fin 100) mx \<Longrightarrow>
      \<not> (fle (Fin 0) mn \<and> flt mn mx \<and> fle mx (Fin 100))"
    using fle_flt_exclusive[of mx mn] flt_fle_exclusive[of mn "Fin 0"]
      flt_fle_exclusive[of "Fin 100" mx] by blast
  have run: "compute_from_arrays ext (PercentileFilter ins mn mx) arrays mask' h
        \<noteq> Inl (BadPercentileBounds a b)"
    by (simp add: PercentileFilter_compute_errors)
  from ok bad outside run show ?thesis by blast
qed

theorem PercentileFilter_bounds_validated_at_construction_witness:
  "PercentileFilter_new Term_validate_ok (OtherTerm ''Factor'' 10 [] []) (Fin 20) (Fin 80)
     = Inr (PercentileFilter [OtherTerm ''Factor'' 10 [] []] (Fin 20) (Fin 80))
   \<and> PercentileFilter_new Term_validate_ok (OtherTerm ''Factor'' 10 [] []) (Fin 80) (Fin 20)
     = Inl (BadPercentileBounds (Fin 80) (Fin 20))
   \<and> PercentileFilter_new Term_validate_ok (OtherTerm ''Factor'' 10 [] []) (Fin 50) (Fin 101)
     = Inl (BadPercentileBounds (Fin 50) (Fin 101))
   \<and> PercentileFilter_new Term_validate_ok (OtherTerm ''Factor'' 10 [] []) NaN (Fin 80)
     = Inl (BadPercentileBounds NaN (Fin 80))"
  using
    PercentileFilter_bounds_validated_at_construction[of "Fin 20" "Fin 80" Term_validate_ok
      "OtherTerm ''Factor'' 10 [] []"]
    PercentileFilter_bounds_validated_at_construction[of "Fin 80" "Fin 20" Term_validate_ok
      "OtherTerm ''Factor'' 10 [] []"]
    PercentileFilter_bounds_validated_at_construction[of "Fin 50" "Fin 101" Term_validate_ok
      "OtherTerm ''Factor'' 10 [] []"]
    PercentileFilter_bounds_validated_at_construction[of NaN "Fin 80" Term_validate_ok
      "OtherTerm ''Factor'' 10 [] []"]
  by (simp add: Term_validate_ok_def)

text \<open>
  What the construction of a \<^verbatim>\<open>SequencedFilter\<close> answers to operands that are not filters.
  When \<open>then'\<close> is a node, validation is reached and raises the \<^verbatim>\<open>TypeError\<close> that names the
  class of the first operand that is no Filter; when \<open>then'\<close> is no node, reading its inputs
  has failed before.
\<close>

lemma SequencedFilter_new_not_filters:
  "\<not> isinstance_Filter first \<Longrightarrow> isinstance_Term then' \<Longrightarrow>
     SequencedFilter_new Term_validate first then'
     = Inl (TypeError (''Expected Filter, got '' @ type_name first))"
  "isinstance_Filter first \<Longrightarrow> isinstance_Term then' \<Longrightarrow> \<not> isinstance_Filter then' \<Longrightarrow>
     SequencedFilter_new Term_validate first then'
     = Inl (TypeError (''Expected Filter, got '' @ type_name then'))"
  "\<not> isinstance_Term then' \<Longrightarrow>
     SequencedFilter_new Term_validate first then'
     = Inl (AttributeError (type_name then') ''inputs'')"
  by (cases then'; simp add: SequencedFilter_new_def Term_new_def concat_tuples_def)+

text \<open>
  Claim C8, at an input where the code departs from it. \<^verbatim>\<open>SequencedFilter(f, 5)\<close>, which is
  \<^verbatim>\<open>f.then(5)\<close>, does not fail with the \<^verbatim>\<open>TypeError\<close> "Expected Filter, got int" of
  \<^verbatim>\<open>_validate\<close>: \<^verbatim>\<open>__new__\<close> reads \<^verbatim>\<open>then.inputs\<close> first, and an \<^verbatim>\<open>int\<close> has no
  such attribute.
\<close>

theorem SequencedFilter_new_of_int:
  "Filter_then Term_validate (OtherFilter ''TestingFilter'' 0 [] []) (PyInt 5)
     = Inl (AttributeError ''int'' ''inputs'')
   \<and> SequencedFilter_new Term_validate (OtherFilter ''TestingFilter'' 0 [] []) (PyInt 5)
     \<noteq> Inl (TypeError ''Expected Filter, got int'')"
  by (simp add: Filter_then_def SequencedFilter_new_def)

text \<open>
  Claim C9. A \<^verbatim>\<open>SequencedFilter\<close> constructed from the filters \<open>first\<close> and \<open>then'\<close> (the
  validation of the base class accepting the node) has as inputs \<open>first\<close> followed by the inputs
  of \<open>then'\<close>, in their order, none of them dropped.
\<close>

theorem SequencedFilter_inputs:
  assumes "isinstance_Filter first" and "isinstance_Filter then'"
    and "getattr_inputs then' = Inr then_inputs"
    and "Term_validate (SequencedFilter (first # then_inputs) then') = Inr ()"
  shows "SequencedFilter_new Term_validate first then'
           = Inr (SequencedFilter ([first] @ then_inputs) then')
       \<and> getattr_inputs (SequencedFilter ([first] @ then_inputs) then')
           = Inr ([first] @ then_inputs)"
  using assms
  by (simp add: SequencedFilter_new_def Term_new_def concat_tuples_def)

theorem SequencedFilter_inputs_witness:
  "SequencedFilter_new Term_validate_ok (OtherFilter ''F'' 0 [] [])
       (NumExprFilter ''x_0 & x_1'' [OtherFilter ''F'' 0 [] [], OtherFilter ''G'' 0 [] []])
     = Inr (SequencedFilter [OtherFilter ''F'' 0 [] [], OtherFilter ''F'' 0 [] [], OtherFilter ''G'' 0 [] []]
             (NumExprFilter ''x_0 & x_1'' [OtherFilter ''F'' 0 [] [], OtherFilter ''G'' 0 [] []]))"
  using SequencedFilter_inputs[of "OtherFilter ''F'' 0 [] []"
      "NumExprFilter ''x_0 & x_1'' [OtherFilter ''F'' 0 [] [], OtherFilter ''G'' 0 [] []]"
      "[OtherFilter ''F'' 0 [] [], OtherFilter ''G'' 0 [] []]" Term_validate_ok]
  by (simp add: Term_validate_ok_def)

section \<open>Properties of the computation\<close>

text \<open>
  Claim C1. Let the arrays and the mask be in the store, let the evaluation of the expression
  return a boolean array \<open>R\<close>, and let the mask \<open>M\<close> have the shape of \<open>R\<close>. Then
  \<^verbatim>\<open>compute_from_arrays\<close> of a \<^verbatim>\<open>NumExprFilter\<close> returns an array that is, position by
  position, the conjunction of \<open>R\<close> and \<open>M\<close>; where the mask is false the result is false,
  whatever \<open>R\<close> holds there.
\<close>

theorem NumExprFilter_compute_applies_mask:
  assumes "\<forall>p\<in>set arrays. p < length h" and "mask' < length h"
    and "numexpr_evaluate ext expr (map (nth h) arrays) (h ! mask') = Inr (BoolArray R)"
    and "h ! mask' = BoolArray M" and "map length R = map length M"
  shows "\<exists>r h' C. compute_from_arrays ext (NumExprFilter expr ins) arrays mask' h = Inr (r, h')
           \<and> r < length h' \<and> h' ! r = BoolArray C \<and> C = map2 (map2 (\<and>)) R M
           \<and> map length C = map length M
           \<and> (\<forall>i<length M. \<forall>j<length (M ! i). C ! i ! j = (R ! i ! j \<and> M ! i ! j))
           \<and> (\<forall>i<length M. \<forall>j<length (M ! i). \<not> M ! i ! j \<longrightarrow> \<not> C ! i ! j)"
proof -
  have run: "compute_from_arrays ext (NumExprFilter expr ins) arrays mask' h
        = Inr (length h + 1, h @ [BoolArray R, BoolArray (map2 (map2 (\<and>)) R M)])"
    using assms by (simp add: NumExprFilter_compute_eq broadcast2_same)
  have pt: "\<forall>i<length M. \<forall>j<length (M ! i).
              map2 (map2 (\<and>)) R M ! i ! j = (R ! i ! j \<and> M ! i ! j)"
    using assms(5) by (simp add: map2_map2_nth)
  from run pt map2_map2_shape[OF assms(5)] show ?thesis
    by (simp add: nth_append)
qed

theorem NumExprFilter_compute_applies_mask_witness:
  "\<exists>r h'. compute_from_arrays example_externals (NumExprFilter ''x_0'' [OtherFilter ''F'' 0 [] []]) [0] 1
             [BoolArray [[True, True, False]], BoolArray [[True, False, True]]] = Inr (r, h')
         \<and> h' ! r = BoolArray [[True, False, False]]"
  using NumExprFilter_compute_applies_mask[of "[0]"
      "[BoolArray [[True, True, False]], BoolArray [[True, False, True]]]" 1
      example_externals "''x_0''" "[[True, True, False]]" "[[True, False, True]]"
      "[OtherFilter ''F'' 0 [] []]"]
  by (simp del: compute_from_arrays.simps add: example_externals_def) blast

text \<open>
  Claim C2. For a \<^verbatim>\<open>SequencedFilter\<close> whose second filter is \<open>then'\<close>, with the mask \<open>M\<close> and
  the result \<open>R\<close> of the first filter boolean arrays of one shape in the store,
  \<^verbatim>\<open>compute_from_arrays\<close> is the call of \<^verbatim>\<open>compute_from_arrays\<close> of \<open>then'\<close> on the
  remaining arrays, with as mask a new array \<open>N\<close> that is \<open>M\<close> and \<open>R\<close> position by position;
  the result of that call is the result.
\<close>

theorem SequencedFilter_compute_narrows_mask:
  assumes "isinstance_Filter then'"
    and "mask' < length h" and "first_result < length h"
    and "h ! mask' = BoolArray M" and "h ! first_result = BoolArray R"
    and "map length M = map length R"
  shows "\<exists>N. compute_from_arrays ext (SequencedFilter ins then') (first_result # then_inputs) mask' h
              = compute_from_arrays ext then' then_inputs (length h) (h @ [BoolArray N])
           \<and> N = map2 (map2 (\<and>)) M R
           \<and> map length N = map length M
           \<and> (\<forall>i<length M. \<forall>j<length (M ! i). N ! i ! j = (M ! i ! j \<and> R ! i ! j))"
proof -
  from assms(6) have sh: "map length R = map length M" by simp
  have "compute_from_arrays ext (SequencedFilter ins then') (first_result # then_inputs) mask' h
        = compute_from_arrays ext then' then_inputs (length h)
            (h @ [BoolArray (map2 (map2 (\<and>)) M R)])"
    using assms by (simp add: ref_and_eq broadcast2_same isinstance_Filter_Term)
  moreover have "map length (map2 (map2 (\<and>)) M R) = map length M"
    using map2_map2_shape[OF assms(6), of "(\<and>)"] sh by simp
  moreover have "\<forall>i<length M. \<forall>j<length (M ! i).
                   map2 (map2 (\<and>)) M R ! i ! j = (M ! i ! j \<and> R ! i ! j)"
  proof (intro allI impI)
    fix i j assume i: "i < length M" and j: "j < length (M ! i)"
    from assms(6) have "length M = length R" by (rule map_eq_imp_length_eq)
    with i have i': "i < length R" by simp
    from shape_row[OF assms(6) i'] j have j': "j < length (R ! i)" by simp
    from map2_map2_nth[OF assms(6) i' j']
    show "map2 (map2 (\<and>)) M R ! i ! j = (M ! i ! j \<and> R ! i ! j)" .
  qed
  ultimately show ?thesis by blast
qed

theorem SequencedFilter_compute_narrows_mask_witness:
  "compute_from_arrays example_externals
       (SequencedFilter [OtherFilter ''F'' 0 [] [], OtherFilter ''G'' 0 [] []]
          (NumExprFilter ''x_0'' [OtherFilter ''G'' 0 [] []]))
       [0, 2] 1
       [BoolArray [[True, False, True]], BoolArray [[True, True, False]],
        BoolArray [[True, True, True]]]
   = compute_from_arrays example_externals (NumExprFilter ''x_0'' [OtherFilter ''G'' 0 [] []]) [2] 3
       [BoolArray [[True, False, True]], BoolArray [[True, True, False]],
        BoolArray [[True, True, True]], BoolArray [[True, False, False]]]"
  using SequencedFilter_compute_narrows_mask[of "NumExprFilter ''x_0'' [OtherFilter ''G'' 0 [] []]" 1
      "[BoolArray [[True, False, True]], BoolArray [[True, True, False]],
        BoolArray [[True, True, True]]]" 0 "[[True, True, False]]" "[[True, False, True]]"
      example_externals "[OtherFilter ''F'' 0 [] [], OtherFilter ''G'' 0 [] []]" "[2]"]
  by (simp del: compute_from_arrays.simps add: numeral_3_eq_3)

text \<open>
  Claim C4. Let the factor array and the mask \<open>M\<close>, a boolean array of the shape of the factor
  array, be in the store, and \<open>F\<close> be the factor array as floats. Then
  \<^verbatim>\<open>compute_from_arrays\<close> of a \<^verbatim>\<open>PercentileFilter\<close> returns. The array \<open>D\<close> it takes
  the percentiles of is a new one that holds \<open>F\<close> where the mask is true and NaN where it is
  false; the bounds of a row are the percentiles of the entries of \<open>D\<close> that are not NaN, which
  are the entries of \<open>F\<close> that the mask keeps and that are numbers; the result \<open>B\<close> is
  \<^verbatim>\<open>lower <= value <= upper\<close> on the values of \<open>D\<close>, and it is false wherever the mask is.
\<close>

theorem PercentileFilter_compute_band:
  assumes "factor < length h" and "mask' < length h" and "h ! mask' = BoolArray M"
    and "F = as_float (h ! factor)" and "map length F = map length M"
  shows "\<exists>r h' D LO UP B.
      compute_from_arrays ext (PercentileFilter ins mn mx) (factor # rest) mask' h = Inr (r, h')
    \<and> r < length h' \<and> h' ! r = BoolArray B
    \<and> h' ! length h = FloatArray D \<and> D = masked_data F M
    \<and> h' ! (length h + 2) = FloatArray (map (\<lambda>l. [l]) LO)
    \<and> h' ! (length h + 3) = FloatArray (map (\<lambda>u. [u]) UP)
    \<and> B = band_rows (percentile ext) mn mx D
    \<and> map length D = map length M \<and> map length B = map length M
    \<and> length LO = length M \<and> length UP = length M
    \<and> (\<forall>i<length M. \<forall>j<length (M ! i). D ! i ! j = (if M ! i ! j then F ! i ! j else NaN))
    \<and> (\<forall>i<length M. filter (\<lambda>x. x \<noteq> NaN) (D ! i) = valid_values (F ! i) (M ! i))
    \<and> (\<forall>i<length M. LO ! i = percentile ext (valid_values (F ! i) (M ! i)) mn
                     \<and> UP ! i = percentile ext (valid_values (F ! i) (M ! i)) mx)
    \<and> (\<forall>i<length M. \<forall>j<length (M ! i).
           B ! i ! j = (fle (LO ! i) (D ! i ! j) \<and> fle (D ! i ! j) (UP ! i)))
    \<and> (\<forall>i<length M. \<forall>j<length (M ! i). \<not> M ! i ! j \<longrightarrow> \<not> B ! i ! j)"
proof -
  define pct where "pct = percentile ext"
  define D where "D = masked_data F M"
  define LO where "LO = map (\<lambda>row. pct (filter (\<lambda>x. x \<noteq> NaN) row) mn) D"
  define UP where "UP = map (\<lambda>row. pct (filter (\<lambda>x. x \<noteq> NaN) row) mx) D"
  define B where "B = band_rows pct mn mx D"
  define h' where "h' = h @ PercentileFilter_arrays pct mn mx F M"
  from assms(5) have lenFM: "length F = length M" by (rule map_eq_imp_length_eq)
  have run: "compute_from_arrays ext (PercentileFilter ins mn mx) (factor # rest) mask' h
             = Inr (length h + 6, h')"
    using assms by (simp add: PercentileFilter_compute_success h'_def pct_def)
  have r: "length h + 6 < length h'"
    by (simp add: h'_def length_PercentileFilter_arrays)
  have hB: "h' ! (length h + 6) = BoolArray B"
    by (simp add: h'_def nth_append PercentileFilter_arrays_def Let_def B_def D_def)
  have hD: "h' ! length h = FloatArray D"
    by (simp add: h'_def nth_append PercentileFilter_arrays_def Let_def D_def)
  have hLO: "h' ! (length h + 2) = FloatArray (map (\<lambda>l. [l]) LO)"
    by (simp add: h'_def nth_append PercentileFilter_arrays_def Let_def D_def LO_def
        row_bounds_def comp_def)
  have hUP: "h' ! (length h + 3) = FloatArray (map (\<lambda>u. [u]) UP)"
    by (simp add: h'_def nth_append PercentileFilter_arrays_def Let_def D_def UP_def
        row_bounds_def comp_def)
  have shD: "map length D = map length M"
    unfolding D_def masked_data_def by (rule map2_map2_shape[OF assms(5)])
  then have lenD: "length D = length M" by (rule map_eq_imp_length_eq)
  have shB: "map length B = map length M"
    using shD by (simp add: B_def band_rows_def comp_def)
  have lenLO: "length LO = length M" and lenUP: "length UP = length M"
    using lenD by (simp_all add: LO_def UP_def)
  have rowD: "D ! i = map2 (\<lambda>x b. if b then x else NaN) (F ! i) (M ! i)" if "i < length M" for i
    using that lenFM by (simp add: D_def masked_data_def)
  have ptD: "\<forall>i<length M. \<forall>j<length (M ! i). D ! i ! j = (if M ! i ! j then F ! i ! j else NaN)"
    unfolding D_def masked_data_def using assms(5) by (simp add: map2_map2_nth)
  have valid: "\<forall>i<length M. filter (\<lambda>x. x \<noteq> NaN) (D ! i) = valid_values (F ! i) (M ! i)"
    by (simp add: rowD filter_masked_row)
  have bounds: "\<forall>i<length M. LO ! i = pct (valid_values (F ! i) (M ! i)) mn
                     \<and> UP ! i = pct (valid_values (F ! i) (M ! i)) mx"
    using valid lenD by (simp add: LO_def UP_def)
  have ptB: "\<forall>i<length M. \<forall>j<length (M ! i).
           B ! i ! j = (fle (LO ! i) (D ! i ! j) \<and> fle (D ! i ! j) (UP ! i))"
  proof (intro allI impI)
    fix i j assume i: "i < length M" and j: "j < length (M ! i)"
    from shape_row[OF shD i] j have j': "j < length (D ! i)" by simp
    from i lenD j' show "B ! i ! j = (fle (LO ! i) (D ! i ! j) \<and> fle (D ! i ! j) (UP ! i))"
      by (simp add: B_def band_rows_def LO_def UP_def)
  qed
  have masked: "\<forall>i<length M. \<forall>j<length (M ! i). \<not> M ! i ! j \<longrightarrow> \<not> B ! i ! j"
    using ptB ptD by simp
  show ?thesis
    using run r hB hD hLO hUP shD shB lenLO lenUP ptD valid bounds ptB masked
    unfolding pct_def[symmetric] B_def[symmetric] D_def[symmetric]
    by (intro exI[of _ "length h + 6"] exI[of _ h'] exI[of _ D] exI[of _ LO] exI[of _ UP]
        exI[of _ B]) (simp add: B_def D_def)
qed


lemma linear_percentile_examples:
  "linear_percentile [Fin 10, Fin 30, Fin 50] (Fin 0) = Fin 10"
  "linear_percentile [Fin 10, Fin 30, Fin 50] (Fin 50) = Fin 30"
  "linear_percentile [Fin 10, Fin 20, Fin 30, Fin 40, Fin 50] (Fin 20) = Fin 18"
  "linear_percentile [Fin 10, Fin 20, Fin 30, Fin 40, Fin 50] (Fin 80) = Fin 42"
  by (simp_all add: linear_percentile_def finite_values_def Let_def)

theorem PercentileFilter_compute_band_witness:
  "\<exists>r h'. compute_from_arrays example_externals
              (PercentileFilter [OtherTerm ''Factor'' 10 [] []] (Fin 0) (Fin 50)) [0] 1
              [FloatArray [[Fin 10, Fin 20, Fin 30, Fin 40, Fin 50]],
               BoolArray [[True, False, True, False, True]]] = Inr (r, h')
          \<and> h' ! 2 = FloatArray [[Fin 10, NaN, Fin 30, NaN, Fin 50]]
          \<and> h' ! r = BoolArray [[True, False, True, False, False]]"
proof -
  let ?h = "[FloatArray [[Fin 10, Fin 20, Fin 30, Fin 40, Fin 50]],
             BoolArray [[True, False, True, False, True]]]"
  let ?F = "[[Fin 10, Fin 20, Fin 30, Fin 40, Fin 50]]"
  let ?M = "[[True, False, True, False, True]]"
  have "\<exists>r h' D LO UP B.
      compute_from_arrays example_externals
        (PercentileFilter [OtherTerm ''Factor'' 10 [] []] (Fin 0) (Fin 50)) (0 # []) 1 ?h = Inr (r, h')
    \<and> r < length h' \<and> h' ! r = BoolArray B
    \<and> h' ! length ?h = FloatArray D \<and> D = masked_data ?F ?M
    \<and> h' ! (length ?h + 2) = FloatArray (map (\<lambda>l. [l]) LO)
    \<and> h' ! (length ?h + 3) = FloatArray (map (\<lambda>u. [u]) UP)
    \<and> B = band_rows (percentile example_externals) (Fin 0) (Fin 50) D
    \<and> map length D = map length ?M \<and> map length B = map length ?M
    \<and> length LO = length ?M \<and> length UP = length ?M
    \<and> (\<forall>i<length ?M. \<forall>j<length (?M ! i). D ! i ! j = (if ?M ! i ! j then ?F ! i ! j else NaN))
    \<and> (\<forall>i<length ?M. filter (\<lambda>x. x \<noteq> NaN) (D ! i) = valid_values (?F ! i) (?M ! i))
    \<and> (\<forall>i<length ?M. LO ! i = percentile example_externals (valid_values (?F ! i) (?M ! i)) (Fin 0)
                     \<and> UP ! i = percentile example_externals (valid_values (?F ! i) (?M ! i)) (Fin 50))
    \<and> (\<forall>i<length ?M. \<forall>j<length (?M ! i).
           B ! i ! j = (fle (LO ! i) (D ! i ! j) \<and> fle (D ! i ! j) (UP ! i)))
    \<and> (\<forall>i<length ?M. \<forall>j<length (?M ! i). \<not> ?M ! i ! j \<longrightarrow> \<not> B ! i ! j)"
    by (rule PercentileFilter_compute_band) (simp_all add: as_float_def)
  then obtain r h' D B where
    run: "compute_from_arrays example_externals
        (PercentileFilter [OtherTerm ''Factor'' 10 [] []] (Fin 0) (Fin 50)) [0] 1 ?h = Inr (r, h')"
    and hB: "h' ! r = BoolArray B" and hD: "h' ! length ?h = FloatArray D"
    and D: "D = masked_data ?F ?M"
    and B: "B = band_rows (percentile example_externals) (Fin 0) (Fin 50) D"
    by blast
  have D': "D = [[Fin 10, NaN, Fin 30, NaN, Fin 50]]"
    unfolding D by (simp add: masked_data_def)
  have B': "B = [[True, False, True, False, False]]"
    unfolding B D' by (simp add: band_rows_def example_externals_def linear_percentile_examples)
  from hD D' have "h' ! 2 = FloatArray [[Fin 10, NaN, Fin 30, NaN, Fin 50]]" by (simp add: numeral_2_eq_2)
  with run hB B' show ?thesis by blast
qed

text \<open>
  Claim C10. Let \<open>f\<close> be a filter computed by the methods of the file, its arrays and its mask
  in the store, and let \<^verbatim>\<open>compute_from_arrays\<close> return. Then every array that was in the
  store holds what it held, the input arrays and the mask among them: what the method writes,
  the NaN of a \<^verbatim>\<open>PercentileFilter\<close> included, it writes into arrays it has allocated. Called
  again with the same arguments it returns an array of the same contents, and so it does in
  any store, on any references, where the arrays and the mask have the same contents.
\<close>

theorem compute_from_arrays_pure:
  assumes "defined_here f"
    and "\<forall>p\<in>set arrays. p < length h" and "mask' < length h"
    and "compute_from_arrays ext f arrays mask' h = Inr (r, h')"
  shows "(\<forall>p<length h. h' ! p = h ! p)
       \<and> map (nth h') arrays = map (nth h) arrays \<and> h' ! mask' = h ! mask'
       \<and> r < length h'
       \<and> (\<exists>r2 h2. compute_from_arrays ext f arrays mask' h' = Inr (r2, h2)
                   \<and> r2 < length h2 \<and> h2 ! r2 = h' ! r)
       \<and> (\<forall>g arrays2 mask2.
             list_all2 (same_contents h g) arrays arrays2 \<and> same_contents h g mask' mask2 \<longrightarrow>
             (\<exists>r2 g'. compute_from_arrays ext f arrays2 mask2 g = Inr (r2, g')
                       \<and> r2 < length g' \<and> g' ! r2 = h' ! r))"
proof -
  from compute_frame[OF assms(1,3,4)] have pre: "prefix h h'" and r: "r < length h'" by simp_all
  from pre have keep: "\<forall>p<length h. h' ! p = h ! p" by (simp add: prefix_nth)
  from pre have len: "length h \<le> length h'" by (rule prefix_length_le)
  from keep assms(2) have arrs: "map (nth h') arrays = map (nth h) arrays" by simp
  from keep assms(3) have msk: "h' ! mask' = h ! mask'" by simp
  have a2: "list_all2 (same_contents h h') arrays arrays"
    using assms(2) keep len by (auto simp: list_all2_same same_contents_def)
  have m2: "same_contents h h' mask' mask'"
    using assms(3) keep len by (simp add: same_contents_def)
  from compute_deterministic[OF assms(1) a2 m2, of ext] assms(4)
  obtain r2 h2 where "compute_from_arrays ext f arrays mask' h' = Inr (r2, h2)"
    and "same_contents h' h2 r r2" by auto
  then have again: "\<exists>r2 h2. compute_from_arrays ext f arrays mask' h' = Inr (r2, h2)
                   \<and> r2 < length h2 \<and> h2 ! r2 = h' ! r"
    by (auto simp: same_contents_def)
  have other: "\<exists>r2 g'. compute_from_arrays ext f arrays2 mask2 g = Inr (r2, g')
                       \<and> r2 < length g' \<and> g' ! r2 = h' ! r"
    if "list_all2 (same_contents h g) arrays arrays2 \<and> same_contents h g mask' mask2"
    for g arrays2 mask2
  proof -
    from that have a: "list_all2 (same_contents h g) arrays arrays2"
      and m: "same_contents h g mask' mask2" by simp_all
    from compute_deterministic[OF assms(1) a m, of ext] assms(4)
    obtain r2 g' where "compute_from_arrays ext f arrays2 mask2 g = Inr (r2, g')"
      and "same_contents h' g' r r2" by auto
    then show ?thesis by (auto simp: same_contents_def)
  qed
  from keep arrs msk r again other show ?thesis by blast
qed

theorem compute_from_arrays_pure_witness:
  "\<exists>r h'. compute_from_arrays example_externals
             (PercentileFilter [OtherTerm ''Factor'' 10 [] []] (Fin 0) (Fin 50)) [0] 1
             [FloatArray [[Fin 10, Fin 20, Fin 30, Fin 40, Fin 50]],
              BoolArray [[True, False, True, False, True]]] = Inr (r, h')
         \<and> h' ! 0 = FloatArray [[Fin 10, Fin 20, Fin 30, Fin 40, Fin 50]]
         \<and> h' ! 1 = BoolArray [[True, False, True, False, True]]
         \<and> (\<exists>r2 h2. compute_from_arrays example_externals
                (PercentileFilter [OtherTerm ''Factor'' 10 [] []] (Fin 0) (Fin 50)) [0] 1 h'
                  = Inr (r2, h2)
              \<and> h2 ! r2 = h' ! r)"
proof -
  let ?h = "[FloatArray [[Fin 10, Fin 20, Fin 30, Fin 40, Fin 50]],
             BoolArray [[True, False, True, False, True]]]"
  let ?f = "PercentileFilter [OtherTerm ''Factor'' 10 [] []] (Fin 0) (Fin 50)"
  obtain r h' where run: "compute_from_arrays example_externals ?f [0] 1 ?h = Inr (r, h')"
    by (simp add: PercentileFilter_compute_eq as_float_def)
  have d: "defined_here ?f" by simp
  have a: "\<forall>p\<in>set [0]. p < length ?h" by simp
  have m: "1 < length ?h" by simp
  from compute_from_arrays_pure[OF d a m run]
  have keep: "\<forall>p<length ?h. h' ! p = ?h ! p"
    and again: "\<exists>r2 h2. compute_from_arrays example_externals ?f [0] 1 h' = Inr (r2, h2)
                   \<and> r2 < length h2 \<and> h2 ! r2 = h' ! r"
    by blast+
  from keep have "h' ! 0 = ?h ! 0" and "h' ! 1 = ?h ! 1" by simp_all
  with run again show ?thesis by auto
qed

end
